theory Spec2Isabelle
  imports Complex_Main "HOL-Library.Sublist"
begin

section \<open>Data model (app/models/analysis.py, app/utils/code_parser.py)\<close>

datatype IssueSeverity = CRITICAL | HIGH | MEDIUM | LOW | INFO

datatype IssueCategory =
  SECURITY | PERFORMANCE | COMPLEXITY | DUPLICATION | TESTING | DOCUMENTATION
  | MAINTAINABILITY | STYLE | ARCHITECTURE | DEPENDENCIES

text \<open>
  \<^verbatim>\<open>CodeIssue\<close>: Python floats are modelled by exact rationals, Python ints by \<open>int\<close>,
  \<^verbatim>\<open>Optional\<close> fields by \<open>option\<close>. The field \<^verbatim>\<open>id\<close> is named \<open>issue_id\<close>.
  The fields \<^verbatim>\<open>code_snippet\<close>, \<^verbatim>\<open>references\<close> are display data that no
  decision of the analysers reads; they are left out of the record.
\<close>

record CodeIssue =
  issue_id :: "string option"
  category :: IssueCategory
  severity :: IssueSeverity
  title :: string
  description :: string
  file_path :: string
  line_number :: "int option"
  line_range :: "(int \<times> int) option"
  suggestion :: string
  impact_score :: rat
  confidence :: rat
  rule_id :: "string option"
  fix_complexity :: string
  estimated_fix_time :: "int option"

text \<open>The pydantic field constraints of \<^verbatim>\<open>CodeIssue\<close> (\<^verbatim>\<open>Field(ge=.., le=..)\<close>).\<close>

definition field_constraints :: "CodeIssue \<Rightarrow> bool" where
  "field_constraints i \<longleftrightarrow>
     0 \<le> impact_score i \<and> impact_score i \<le> 10 \<and> 0 \<le> confidence i \<and> confidence i \<le> 1"

subsection \<open>Python syntax trees\<close>

text \<open>
  A node of Python's \<^verbatim>\<open>ast\<close> module: its class with the attributes the analysers
  read, and its child nodes in the order of \<^verbatim>\<open>ast.iter_child_nodes\<close> (the order in which
  \<^verbatim>\<open>NodeVisitor.generic_visit\<close> visits them). \<open>FunctionDef name lineno end_lineno args doc\<close>
  carries the names of \<^verbatim>\<open>node.args.args\<close> and the value of \<^verbatim>\<open>ast.get_docstring(node)\<close>;
  \<open>ClassDef name lineno end_lineno bases doc\<close> carries the unparsed base expressions;
  \<open>Import names\<close> and \<open>ImportFrom module names\<close> carry the alias names.
  \<open>ExceptHandler typed lineno\<close> records whether \<^verbatim>\<open>handler.type\<close> is present. Every
  class that no analyser distinguishes is \<open>Other\<close>.
\<close>

datatype ast_kind =
    FunctionDef string int int "string list" "string option"
  | AsyncFunctionDef string int int "string list" "string option"
  | ClassDef string int int "string list" "string option"
  | Import "string list"
  | ImportFrom "string option" "string list"
  | If int
  | While int
  | For int
  | AsyncFor int
  | Try int
  | ExceptHandler bool int
  | With int
  | AsyncWith int
  | Assert
  | BoolOp
  | And
  | Or
  | comprehension
  | Other

datatype ast = Node ast_kind "ast list"

fun kind :: "ast \<Rightarrow> ast_kind" where
  "kind (Node k cs) = k"

fun children :: "ast \<Rightarrow> ast list" where
  "children (Node k cs) = cs"

fun lineno :: "ast \<Rightarrow> int" where
  "lineno (Node (FunctionDef n l e a d) cs) = l"
| "lineno (Node (AsyncFunctionDef n l e a d) cs) = l"
| "lineno (Node (ClassDef n l e b d) cs) = l"
| "lineno (Node (If l) cs) = l"
| "lineno (Node (While l) cs) = l"
| "lineno (Node (For l) cs) = l"
| "lineno (Node (AsyncFor l) cs) = l"
| "lineno (Node (Try l) cs) = l"
| "lineno (Node (ExceptHandler t l) cs) = l"
| "lineno (Node (With l) cs) = l"
| "lineno (Node (AsyncWith l) cs) = l"
| "lineno (Node k cs) = 0"

text \<open>\<^verbatim>\<open>len(node.values)\<close> of a \<^verbatim>\<open>BoolOp\<close>: its children are the operator node followed
  by the operand expressions.\<close>

definition boolop_values :: "ast list \<Rightarrow> int" where
  "boolop_values cs = int (length (filter (\<lambda>c. kind c \<noteq> And \<and> kind c \<noteq> Or) cs))"

text \<open>\<^verbatim>\<open>len(node.handlers)\<close> of a \<^verbatim>\<open>Try\<close>.\<close>

definition try_handlers :: "ast list \<Rightarrow> int" where
  "try_handlers cs = int (length (filter (\<lambda>c. case kind c of ExceptHandler t l \<Rightarrow> True | _ \<Rightarrow> False) cs))"

subsection \<open>The call stack of a visitor\<close>

text \<open>
  \<^verbatim>\<open>ast.NodeVisitor\<close> is recursive: \<^verbatim>\<open>visit(node)\<close> calls the method
  \<^verbatim>\<open>visit_<Class>\<close> if the visitor has one, which calls \<^verbatim>\<open>generic_visit(node)\<close>, and
  \<^verbatim>\<open>generic_visit\<close> otherwise; \<^verbatim>\<open>generic_visit\<close> resumes the generator
  \<^verbatim>\<open>iter_fields\<close> and calls \<^verbatim>\<open>visit\<close> on every child. \<open>visit_depth has_method t\<close> is the
  number of stack frames that \<^verbatim>\<open>visit\<close> needs on the tree \<open>t\<close>. When the interpreter has
  fewer frames left below its recursion limit, \<^verbatim>\<open>visit\<close> raises \<^verbatim>\<open>RecursionError\<close>.
\<close>

fun visit_depth :: "(ast_kind \<Rightarrow> bool) \<Rightarrow> ast \<Rightarrow> nat" where
  "visit_depth has_method (Node k cs) =
     (if has_method k then 3 else 2) + fold max (map (visit_depth has_method) cs) 1"

subsection \<open>Parsed files\<close>

text \<open>The dictionaries of \<^verbatim>\<open>FileInfo.functions\<close> and \<^verbatim>\<open>FileInfo.classes\<close>; a key that only
  the tree-based extraction sets is an \<open>option\<close>.\<close>

record func_desc =
  fd_name :: string
  fd_line_start :: int
  fd_line_end :: int
  fd_args :: "string list option"
  fd_is_async :: "bool option"

record class_desc =
  cd_name :: string
  cd_line_start :: int
  cd_line_end :: int
  cd_bases :: "string list option"
  cd_methods :: "string list option"

record FileInfo =
  absolute_path :: string
  relative_path :: string
  language :: string
  content :: string
  line_count :: int
  size_bytes :: int
  ast_tree :: "ast option"
  file_imports :: "string list option"
  file_functions :: "func_desc list option"
  file_classes :: "class_desc list option"
  complexity_score :: rat
  hash :: string

section \<open>Strings\<close>

text \<open>Python's \<^verbatim>\<open>str(n)\<close> for integers.\<close>

definition digit_char :: "nat \<Rightarrow> char" where
  "digit_char d = char_of (48 + d)"

fun str_nat :: "nat \<Rightarrow> string" where
  "str_nat n = (if n < 10 then [digit_char n] else str_nat (n div 10) @ [digit_char (n mod 10)])"

definition str_int :: "int \<Rightarrow> string" where
  "str_int i = (if i < 0 then CHR ''-'' # str_nat (nat (- i)) else str_nat (nat i))"

section \<open>Complexity detector (app/analyzers/complexity_analyzer.py)\<close>

text \<open>\<^verbatim>\<open>self.complexity_thresholds\<close>.\<close>

datatype level = low | medium | high

fun complexity_thresholds :: "string \<Rightarrow> level \<Rightarrow> int" where
  "complexity_thresholds m l =
    (if m = ''function_length'' then (case l of low \<Rightarrow> 20 | medium \<Rightarrow> 50 | high \<Rightarrow> 100)
     else if m = ''class_length'' then (case l of low \<Rightarrow> 200 | medium \<Rightarrow> 500 | high \<Rightarrow> 1000)
     else if m = ''cyclomatic'' then (case l of low \<Rightarrow> 5 | medium \<Rightarrow> 10 | high \<Rightarrow> 15)
     else if m = ''cognitive'' then (case l of low \<Rightarrow> 10 | medium \<Rightarrow> 20 | high \<Rightarrow> 30)
     else if m = ''nesting_depth'' then (case l of low \<Rightarrow> 3 | medium \<Rightarrow> 5 | high \<Rightarrow> 7)
     else (case l of low \<Rightarrow> 4 | medium \<Rightarrow> 7 | high \<Rightarrow> 10))"

subsection \<open>Cyclomatic complexity of Python functions\<close>

text \<open>The state of \<^verbatim>\<open>ComplexityVisitor\<close>: the list \<^verbatim>\<open>functions\<close> of dictionaries
  \<^verbatim>\<open>{node, complexity, name}\<close>, \<^verbatim>\<open>current_function\<close> and \<^verbatim>\<open>complexity\<close>.\<close>

record func_info =
  fi_node :: ast
  fi_complexity :: int
  fi_name :: string

record cv_state =
  cv_functions :: "func_info list"
  cv_current_function :: "ast option"
  cv_complexity :: int

definition cv_bump :: "int \<Rightarrow> cv_state \<Rightarrow> cv_state" where
  "cv_bump d st = (if cv_current_function st \<noteq> None
                   then st\<lparr>cv_complexity := cv_complexity st + d\<rparr> else st)"

fun cv_visit :: "ast \<Rightarrow> cv_state \<Rightarrow> cv_state" where
  "cv_visit (Node (FunctionDef n l e a d) cs) st =
     (let st1 = st\<lparr>cv_current_function := Some (Node (FunctionDef n l e a d) cs), cv_complexity := 1\<rparr>;
          st2 = fold cv_visit cs st1;
          st3 = st2\<lparr>cv_functions := cv_functions st2 @
                  [\<lparr>fi_node = Node (FunctionDef n l e a d) cs, fi_complexity = cv_complexity st2,
                    fi_name = n\<rparr>]\<rparr>
      in st3\<lparr>cv_current_function := cv_current_function st, cv_complexity := cv_complexity st\<rparr>)"
| "cv_visit (Node (If l) cs) st = fold cv_visit cs (cv_bump 1 st)"
| "cv_visit (Node (While l) cs) st = fold cv_visit cs (cv_bump 1 st)"
| "cv_visit (Node (For l) cs) st = fold cv_visit cs (cv_bump 1 st)"
| "cv_visit (Node (AsyncFor l) cs) st = fold cv_visit cs (cv_bump 1 st)"
| "cv_visit (Node (ExceptHandler t l) cs) st = fold cv_visit cs (cv_bump 1 st)"
| "cv_visit (Node (With l) cs) st = fold cv_visit cs (cv_bump 1 st)"
| "cv_visit (Node Assert cs) st = fold cv_visit cs (cv_bump 1 st)"
| "cv_visit (Node BoolOp cs) st = fold cv_visit cs (cv_bump (boolop_values cs - 1) st)"
| "cv_visit (Node k cs) st = fold cv_visit cs st"

definition ComplexityVisitor :: cv_state where
  "ComplexityVisitor = \<lparr>cv_functions = [], cv_current_function = None, cv_complexity = 1\<rparr>"

text \<open>The body of the loop over \<^verbatim>\<open>visitor.functions\<close> in
  \<^verbatim>\<open>_analyze_python_cyclomatic\<close>: the finding of one function, if any.\<close>

definition cyclomatic_issue :: "FileInfo \<Rightarrow> func_info \<Rightarrow> CodeIssue option" where
  "cyclomatic_issue file_info f =
     (let complexity = fi_complexity f; node = fi_node f in
      if complexity > complexity_thresholds ''cyclomatic'' medium then
        Some \<lparr>issue_id = Some (''cyclomatic_'' @ hash file_info @ ''_'' @ str_int (lineno node)),
              category = COMPLEXITY,
              severity = (if complexity > complexity_thresholds ''cyclomatic'' high then HIGH else MEDIUM),
              title = ''High Cyclomatic Complexity: '' @ fi_name f,
              description = ''Function '' @ [CHR 0x27] @ fi_name f @ [CHR 0x27]
                 @ '' has cyclomatic complexity of '' @ str_int complexity,
              file_path = relative_path file_info,
              line_number = Some (lineno node),
              line_range = None,
              suggestion = ''Consider breaking this function into smaller functions. Target complexity: < ''
                 @ str_int (complexity_thresholds ''cyclomatic'' medium),
              impact_score = min (of_int complexity / 2) 10,
              confidence = 9 / 10,
              rule_id = Some ''high_cyclomatic_complexity'',
              fix_complexity = ''hard'',
              estimated_fix_time = Some (complexity * 10)\<rparr>
      else None)"

text \<open>The node classes for which \<^verbatim>\<open>ComplexityVisitor\<close> has a method.\<close>

fun cv_has_method :: "ast_kind \<Rightarrow> bool" where
  "cv_has_method (FunctionDef n l e a d) = True"
| "cv_has_method (If l) = True"
| "cv_has_method (While l) = True"
| "cv_has_method (For l) = True"
| "cv_has_method (AsyncFor l) = True"
| "cv_has_method (ExceptHandler t l) = True"
| "cv_has_method (With l) = True"
| "cv_has_method Assert = True"
| "cv_has_method BoolOp = True"
| "cv_has_method k = False"

text \<open>
  \<^verbatim>\<open>_analyze_python_cyclomatic\<close>, called with \<open>frames\<close> stack frames left. The visit and the
  loop over \<^verbatim>\<open>visitor.functions\<close> are inside \<^verbatim>\<open>try ... except Exception\<close>: when the visit
  raises \<^verbatim>\<open>RecursionError\<close> the loop is not reached and the result is the empty list. The
  loop itself raises nothing (every \<^verbatim>\<open>CodeIssue\<close> it builds satisfies the field constraints).
\<close>

definition analyze_python_cyclomatic :: "nat \<Rightarrow> FileInfo \<Rightarrow> CodeIssue list" where
  "analyze_python_cyclomatic frames file_info =
     (case ast_tree file_info of
        None \<Rightarrow> []
      | Some tree \<Rightarrow>
          if frames < visit_depth cv_has_method tree then []
          else List.map_filter (cyclomatic_issue file_info)
                 (cv_functions (cv_visit tree ComplexityVisitor)))"

text \<open>The names and complexities that the visitor records for the functions of a tree.\<close>

definition measured :: "ast \<Rightarrow> (string \<times> int) list" where
  "measured tree =
     map (\<lambda>f. (fi_name f, fi_complexity f)) (cv_functions (cv_visit tree ComplexityVisitor))"

section \<open>Python string operations\<close>

text \<open>
  A Python \<^verbatim>\<open>str\<close> is modelled as a list of \<open>char\<close>, each \<open>char\<close> standing for the code
  point of the same number (so the model covers the code points below 256). The character
  classes below are Python's on that range.
\<close>

text \<open>\<^verbatim>\<open>str.isspace\<close> of one character, also the class \<^verbatim>\<open>\s\<close> of \<^verbatim>\<open>re\<close>.\<close>

definition isspace :: "char \<Rightarrow> bool" where
  "isspace c \<longleftrightarrow> of_char c \<in> {9, 10, 11, 12, 13, 28, 29, 30, 31, 32, 133, 160 :: nat}"

definition lstrip :: "string \<Rightarrow> string" where
  "lstrip s = dropWhile isspace s"

definition rstrip :: "string \<Rightarrow> string" where
  "rstrip s = rev (dropWhile isspace (rev s))"

definition strip :: "string \<Rightarrow> string" where
  "strip s = rstrip (lstrip s)"

definition lower_char :: "char \<Rightarrow> char" where
  "lower_char c =
     (let n = (of_char c :: nat)
      in if (65 \<le> n \<and> n \<le> 90) \<or> (192 \<le> n \<and> n \<le> 222 \<and> n \<noteq> 215) then char_of (n + 32) else c)"

definition lower :: "string \<Rightarrow> string" where
  "lower s = map lower_char s"

fun startswith :: "string \<Rightarrow> string \<Rightarrow> bool" where
  "startswith s [] = True"
| "startswith [] (p # ps) = False"
| "startswith (c # cs) (p # ps) = (c = p \<and> startswith cs ps)"

definition endswith :: "string \<Rightarrow> string \<Rightarrow> bool" where
  "endswith s p = startswith (rev s) (rev p)"

text \<open>\<^verbatim>\<open>kw in s\<close> for strings.\<close>

fun contains :: "string \<Rightarrow> string \<Rightarrow> bool" where
  "contains kw [] = (kw = [])"
| "contains kw (c # cs) = (startswith (c # cs) kw \<or> contains kw cs)"

text \<open>\<^verbatim>\<open>str.splitlines\<close>: the line boundaries are \<^verbatim>\<open>\n \r \r\n \v \f \x1c \x1d \x1e \x85\<close>;
  a last line without a terminator is kept when it is not empty.\<close>

definition is_linebreak :: "char \<Rightarrow> bool" where
  "is_linebreak c \<longleftrightarrow> of_char c \<in> {10, 11, 12, 13, 28, 29, 30, 133 :: nat}"

fun splitlines_from :: "string \<Rightarrow> string \<Rightarrow> string list" where
  "splitlines_from cur [] = (if cur = [] then [] else [cur])"
| "splitlines_from cur [c] = (if is_linebreak c then [cur] else [cur @ [c]])"
| "splitlines_from cur (c # d # cs) =
     (if c = CHR 0x0D \<and> d = CHR 0x0A then cur # splitlines_from [] cs
      else if is_linebreak c then cur # splitlines_from [] (d # cs)
      else splitlines_from (cur @ [c]) (d # cs))"

definition splitlines :: "string \<Rightarrow> string list" where
  "splitlines s = splitlines_from [] s"

text \<open>\<^verbatim>\<open>sep.join(xs)\<close>.\<close>

fun join :: "string \<Rightarrow> string list \<Rightarrow> string" where
  "join sep [] = []"
| "join sep [x] = x"
| "join sep (x # y # ys) = x @ sep @ join sep (y # ys)"

text \<open>\<^verbatim>\<open>len(s.encode('utf-8'))\<close> for code points below 256.\<close>

definition utf8_len :: "string \<Rightarrow> int" where
  "utf8_len s = int (length s) + int (length (filter (\<lambda>c. (of_char c :: nat) \<ge> 128) s))"

subsection \<open>Cognitive complexity of Python functions\<close>

text \<open>The state of \<^verbatim>\<open>CognitiveComplexityVisitor\<close>.\<close>

record cog_info =
  ci_node :: ast
  ci_cognitive_score :: int
  ci_name :: string

record cg_state =
  cg_functions :: "cog_info list"
  cg_current_function :: "ast option"
  cognitive_score :: int
  nesting_level :: int

text \<open>\<^verbatim>\<open>visit_If\<close>, \<^verbatim>\<open>visit_While\<close> and \<^verbatim>\<open>visit_For\<close> share one body.\<close>

fun cg_visit :: "ast \<Rightarrow> cg_state \<Rightarrow> cg_state" where
  "cg_visit (Node (FunctionDef n l e a d) cs) st =
     (let st1 = st\<lparr>cg_current_function := Some (Node (FunctionDef n l e a d) cs),
                    cognitive_score := 0, nesting_level := 0\<rparr>;
          st2 = fold cg_visit cs st1;
          st3 = st2\<lparr>cg_functions := cg_functions st2 @
                  [\<lparr>ci_node = Node (FunctionDef n l e a d) cs,
                    ci_cognitive_score = cognitive_score st2, ci_name = n\<rparr>]\<rparr>
      in st3\<lparr>cg_current_function := cg_current_function st,
              cognitive_score := cognitive_score st, nesting_level := nesting_level st\<rparr>)"
| "cg_visit (Node (If l) cs) st =
     (if cg_current_function st \<noteq> None then
        (let st1 = st\<lparr>cognitive_score := cognitive_score st + (1 + nesting_level st)\<rparr>;
             st2 = st1\<lparr>nesting_level := nesting_level st1 + 1\<rparr>;
             st3 = fold cg_visit cs st2
         in st3\<lparr>nesting_level := nesting_level st3 - 1\<rparr>)
      else fold cg_visit cs st)"
| "cg_visit (Node (While l) cs) st =
     (if cg_current_function st \<noteq> None then
        (let st1 = st\<lparr>cognitive_score := cognitive_score st + (1 + nesting_level st)\<rparr>;
             st2 = st1\<lparr>nesting_level := nesting_level st1 + 1\<rparr>;
             st3 = fold cg_visit cs st2
         in st3\<lparr>nesting_level := nesting_level st3 - 1\<rparr>)
      else fold cg_visit cs st)"
| "cg_visit (Node (For l) cs) st =
     (if cg_current_function st \<noteq> None then
        (let st1 = st\<lparr>cognitive_score := cognitive_score st + (1 + nesting_level st)\<rparr>;
             st2 = st1\<lparr>nesting_level := nesting_level st1 + 1\<rparr>;
             st3 = fold cg_visit cs st2
         in st3\<lparr>nesting_level := nesting_level st3 - 1\<rparr>)
      else fold cg_visit cs st)"
| "cg_visit (Node (Try l) cs) st =
     (if cg_current_function st \<noteq> None
      then fold cg_visit cs (st\<lparr>cognitive_score := cognitive_score st + 1\<rparr>)
      else fold cg_visit cs st)"
| "cg_visit (Node (ExceptHandler t l) cs) st =
     fold cg_visit cs
       (if cg_current_function st \<noteq> None
        then st\<lparr>cognitive_score := cognitive_score st + (1 + nesting_level st)\<rparr> else st)"
| "cg_visit (Node BoolOp cs) st =
     fold cg_visit cs
       (if cg_current_function st \<noteq> None
        then st\<lparr>cognitive_score := cognitive_score st + 1\<rparr> else st)"
| "cg_visit (Node k cs) st = fold cg_visit cs st"

definition CognitiveComplexityVisitor :: cg_state where
  "CognitiveComplexityVisitor =
     \<lparr>cg_functions = [], cg_current_function = None, cognitive_score = 0, nesting_level = 0\<rparr>"



definition cognitive_issue :: "FileInfo \<Rightarrow> cog_info \<Rightarrow> CodeIssue option" where
  "cognitive_issue file_info f =
     (let score = ci_cognitive_score f; node = ci_node f in
      if score > complexity_thresholds ''cognitive'' medium then
        Some \<lparr>issue_id = Some (''cognitive_'' @ hash file_info @ ''_'' @ str_int (lineno node)),
              category = COMPLEXITY,
              severity = (if score > complexity_thresholds ''cognitive'' high then HIGH else MEDIUM),
              title = ''High Cognitive Complexity: '' @ ci_name f,
              description = ''Function '' @ [CHR 0x27] @ ci_name f @ [CHR 0x27]
                 @ '' has cognitive complexity of '' @ str_int score,
              file_path = relative_path file_info,
              line_number = Some (lineno node),
              line_range = None,
              suggestion = ''Reduce nesting and complex logic. Target cognitive complexity: < ''
                 @ str_int (complexity_thresholds ''cognitive'' medium),
              impact_score = min (of_int score / 3) 10,
              confidence = 8 / 10,
              rule_id = Some ''high_cognitive_complexity'',
              fix_complexity = ''hard'',
              estimated_fix_time = Some (score * 8)\<rparr>
      else None)"

text \<open>The node classes for which \<^verbatim>\<open>CognitiveComplexityVisitor\<close> has a method.\<close>

fun cg_has_method :: "ast_kind \<Rightarrow> bool" where
  "cg_has_method (FunctionDef n l e a d) = True"
| "cg_has_method (If l) = True"
| "cg_has_method (While l) = True"
| "cg_has_method (For l) = True"
| "cg_has_method (Try l) = True"
| "cg_has_method (ExceptHandler t l) = True"
| "cg_has_method BoolOp = True"
| "cg_has_method k = False"

text \<open>\<^verbatim>\<open>_analyze_python_cognitive\<close>, called with \<open>frames\<close> stack frames left; as in the
  cyclomatic pass, an exception of the visit is caught and the result is the empty list.\<close>

definition analyze_python_cognitive :: "nat \<Rightarrow> FileInfo \<Rightarrow> CodeIssue list" where
  "analyze_python_cognitive frames file_info =
     (case ast_tree file_info of
        None \<Rightarrow> []
      | Some tree \<Rightarrow>
          if frames < visit_depth cg_has_method tree then []
          else List.map_filter (cognitive_issue file_info)
                 (cg_functions (cg_visit tree CognitiveComplexityVisitor)))"

subsection \<open>Cognitive complexity as a sum over the tree\<close>




section \<open>Structural extractor (app/utils/code_parser.py)\<close>

text \<open>\<^verbatim>\<open>ast.walk\<close>: breadth first, from a queue of nodes.\<close>

function walk_queue :: "ast list \<Rightarrow> ast list" where
  "walk_queue [] = []"
| "walk_queue (Node k cs # todo) = Node k cs # walk_queue (todo @ cs)"
  by pat_completeness auto
termination
proof (relation "measure (\<lambda>ts. sum_list (map size ts))")
  show "wf (measure (\<lambda>ts. sum_list (map size ts)))" by simp
next
  fix k :: ast_kind and cs todo :: "ast list"
  have "sum_list (map size cs) \<le> size_list size cs"
    by (induction cs) auto
  then show "(todo @ cs, Node k cs # todo) \<in> measure (\<lambda>ts. sum_list (map size ts))"
    by simp
qed

definition walk :: "ast \<Rightarrow> ast list" where
  "walk tree = walk_queue [tree]"

text \<open>\<^verbatim>\<open>_calculate_python_complexity\<close>: one step of the loop over \<^verbatim>\<open>ast.walk(tree)\<close>.\<close>

fun python_complexity_step :: "ast \<Rightarrow> int \<Rightarrow> int" where
  "python_complexity_step (Node (If l) cs) complexity = complexity + 1"
| "python_complexity_step (Node (While l) cs) complexity = complexity + 1"
| "python_complexity_step (Node (For l) cs) complexity = complexity + 1"
| "python_complexity_step (Node (AsyncFor l) cs) complexity = complexity + 1"
| "python_complexity_step (Node (Try l) cs) complexity = complexity + try_handlers cs"
| "python_complexity_step (Node And cs) complexity = complexity + 1"
| "python_complexity_step (Node Or cs) complexity = complexity + 1"
| "python_complexity_step (Node comprehension cs) complexity = complexity + 1"
| "python_complexity_step (Node k cs) complexity = complexity"

definition calculate_python_complexity :: "ast \<Rightarrow> rat" where
  "calculate_python_complexity tree = of_int (fold python_complexity_step (walk tree) 1)"

text \<open>\<^verbatim>\<open>_calculate_generic_complexity\<close>.\<close>

definition generic_complexity_step :: "string \<Rightarrow> rat \<Rightarrow> rat" where
  "generic_complexity_step line complexity =
     (let line_stripped = lower (strip line)
      in if list_ex (\<lambda>keyword. contains keyword line_stripped)
              [''if '', ''while '', ''for '', ''switch '', ''case '', ''catch '', ''except '']
         then complexity + 1
         else if list_ex (\<lambda>keyword. contains keyword line_stripped)
              [''&&'', ''||'', ''and '', ''or '']
         then complexity + 1 / 2
         else complexity)"

definition calculate_generic_complexity :: "string \<Rightarrow> rat" where
  "calculate_generic_complexity cont = fold generic_complexity_step (splitlines cont) 1"

text \<open>
  What lies outside the parser: \<^verbatim>\<open>ast.parse\<close> together with the extraction loop that
  follows it in the same \<^verbatim>\<open>try\<close> block (it yields the tree, raises \<^verbatim>\<open>SyntaxError\<close>, or
  raises another exception, possibly after \<^verbatim>\<open>file_info.ast_tree\<close> was assigned); the
  line heuristics of \<^verbatim>\<open>_analyze_generic\<close> for imports, functions and classes, which no
  property below reads; reading and decoding a file; \<^verbatim>\<open>hashlib.md5\<close>; and
  \<^verbatim>\<open>Path.relative_to\<close>.
\<close>

datatype parse_outcome = Parsed ast | SyntaxError | OtherError "ast option"

record parser_env =
  ast_parse :: "string \<Rightarrow> parse_outcome"
  line_heuristics :: "string \<Rightarrow> string \<Rightarrow> string list \<times> func_desc list \<times> class_desc list"
  read_file_safely :: "string \<Rightarrow> string option"
  md5_hexdigest :: "string \<Rightarrow> string"
  relative_to :: "string \<Rightarrow> string \<Rightarrow> string"

text \<open>The extraction loop of \<^verbatim>\<open>_analyze_python_ast\<close> over \<^verbatim>\<open>ast.walk(tree)\<close>.\<close>

fun import_names :: "ast \<Rightarrow> string list" where
  "import_names (Node (Import names) cs) = names"
| "import_names (Node (ImportFrom modname names) cs) =
     map (\<lambda>name. (case modname of None \<Rightarrow> [] | Some m \<Rightarrow> m) @ ''.'' @ name) names"
| "import_names (Node k cs) = []"

fun function_names :: "ast \<Rightarrow> string list" where
  "function_names (Node (FunctionDef n l e a d) cs) = [n]"
| "function_names (Node (AsyncFunctionDef n l e a d) cs) = [n]"
| "function_names (Node k cs) = []"

fun function_descs :: "ast \<Rightarrow> func_desc list" where
  "function_descs (Node (FunctionDef n l e a d) cs) =
     [\<lparr>fd_name = n, fd_line_start = l, fd_line_end = e, fd_args = Some a, fd_is_async = Some False\<rparr>]"
| "function_descs (Node (AsyncFunctionDef n l e a d) cs) =
     [\<lparr>fd_name = n, fd_line_start = l, fd_line_end = e, fd_args = Some a, fd_is_async = Some True\<rparr>]"
| "function_descs (Node k cs) = []"

fun class_descs :: "ast \<Rightarrow> class_desc list" where
  "class_descs (Node (ClassDef n l e b d) cs) =
     [\<lparr>cd_name = n, cd_line_start = l, cd_line_end = e, cd_bases = Some b,
       cd_methods = Some (concat (map function_names cs))\<rparr>]"
| "class_descs (Node k cs) = []"

definition analyze_generic :: "parser_env \<Rightarrow> FileInfo \<Rightarrow> FileInfo" where
  "analyze_generic env file_info =
     (case line_heuristics env (language file_info) (content file_info) of
        (imps, funcs, clss) \<Rightarrow>
          file_info\<lparr>file_imports := Some imps, file_functions := Some funcs,
                    file_classes := Some clss,
                    complexity_score := calculate_generic_complexity (content file_info)\<rparr>)"

definition analyze_python_ast :: "parser_env \<Rightarrow> FileInfo \<Rightarrow> FileInfo" where
  "analyze_python_ast env file_info =
     (case ast_parse env (content file_info) of
        Parsed tree \<Rightarrow>
          file_info\<lparr>ast_tree := Some tree,
                    file_imports := Some (concat (map import_names (walk tree))),
                    file_functions := Some (concat (map function_descs (walk tree))),
                    file_classes := Some (concat (map class_descs (walk tree))),
                    complexity_score := calculate_python_complexity tree\<rparr>
      | SyntaxError \<Rightarrow>
          file_info\<lparr>file_imports := Some [], file_functions := Some [], file_classes := Some [],
                    complexity_score := 1\<rparr>
      | OtherError t \<Rightarrow>
          analyze_generic env (case t of None \<Rightarrow> file_info | Some tree \<Rightarrow> file_info\<lparr>ast_tree := Some tree\<rparr>))"

text \<open>\<^verbatim>\<open>_analyze_ast\<close>. \<^verbatim>\<open>self.parsers\<close> is the empty dictionary (the tree-sitter
  initialisation returns before it registers any parser), so its branch is never taken.\<close>

definition parsers :: "string list" where
  "parsers = []"

definition analyze_ast :: "parser_env \<Rightarrow> FileInfo \<Rightarrow> FileInfo" where
  "analyze_ast env file_info =
     (if language file_info = ''python'' then analyze_python_ast env file_info
      else if language file_info \<in> set [''javascript'', ''typescript''] then analyze_generic env file_info
      else if language file_info \<in> set parsers then analyze_generic env file_info
      else analyze_generic env file_info)"

text \<open>\<^verbatim>\<open>self.supported_extensions\<close> and \<^verbatim>\<open>Path.suffix\<close>.\<close>

definition supported_extensions :: "(string \<times> string) list" where
  "supported_extensions =
     [(''.py'', ''python''), (''.js'', ''javascript''), (''.jsx'', ''javascript''),
      (''.ts'', ''typescript''), (''.tsx'', ''typescript''), (''.java'', ''java''),
      (''.go'', ''go''), (''.cpp'', ''cpp''), (''.cc'', ''cpp''), (''.cxx'', ''cpp''),
      (''.c'', ''c''), (''.cs'', ''csharp''), (''.rb'', ''ruby''), (''.php'', ''php''),
      (''.swift'', ''swift''), (''.kt'', ''kotlin''), (''.rs'', ''rust'')]"

definition path_name :: "string \<Rightarrow> string" where
  "path_name p = rev (takeWhile (\<lambda>c. c \<noteq> CHR ''/'') (rev p))"

definition path_suffix :: "string \<Rightarrow> string" where
  "path_suffix p =
     (let name = path_name p; ext = rev (takeWhile (\<lambda>c. c \<noteq> CHR ''.'') (rev name))
      in if CHR ''.'' \<in> set name \<and> ext \<noteq> [] \<and> length ext + 1 < length name
         then CHR ''.'' # ext else [])"

text \<open>The exceptions that leave a function of the program, with their message.\<close>

datatype py_error = ValueError string | OSError string | Exception string

text \<open>\<^verbatim>\<open>str(e)\<close> of an exception.\<close>

fun error_str :: "py_error \<Rightarrow> string" where
  "error_str (ValueError msg) = msg"
| "error_str (OSError msg) = msg"
| "error_str (Exception msg) = msg"

text \<open>\<^verbatim>\<open>parse_file\<close>; the caught exception is re-raised.\<close>

definition parse_file :: "parser_env \<Rightarrow> string \<Rightarrow> string \<Rightarrow> py_error + FileInfo" where
  "parse_file env fpath bpath =
     (case read_file_safely env fpath of
        None \<Rightarrow> Inl (ValueError (''Could not read file: '' @ fpath))
      | Some cont \<Rightarrow>
          let lang = (case map_of supported_extensions (lower (path_suffix fpath)) of
                            None \<Rightarrow> ''unknown'' | Some l \<Rightarrow> l);
              file_info = \<lparr>absolute_path = fpath,
                           relative_path = (if bpath \<noteq> [] then relative_to env fpath bpath
                                            else fpath),
                           language = lang,
                           content = cont,
                           line_count = int (length (splitlines cont)),
                           size_bytes = utf8_len cont,
                           ast_tree = None, file_imports = None, file_functions = None,
                           file_classes = None, complexity_score = 0,
                           hash = md5_hexdigest env cont\<rparr>
          in Inr (analyze_ast env file_info))"

subsection \<open>Scanning a directory\<close>

text \<open>
  What \<^verbatim>\<open>parse_directory\<close> sees of the file system. \<^verbatim>\<open>Path.exists\<close> and
  \<^verbatim>\<open>Path.is_file\<close> return a boolean or raise: pathlib answers \<^verbatim>\<open>False\<close> when the
  \<^verbatim>\<open>stat\<close> call fails with \<^verbatim>\<open>ENOENT\<close>, \<^verbatim>\<open>ENOTDIR\<close>, \<^verbatim>\<open>EBADF\<close> or \<^verbatim>\<open>ELOOP\<close> and
  re-raises every other \<^verbatim>\<open>OSError\<close> (\<^verbatim>\<open>PermissionError\<close> below a directory without
  search permission, \<^verbatim>\<open>ENAMETOOLONG\<close>, ...). The other fields are
  \<^verbatim>\<open>stat().st_size\<close> (\<open>None\<close> when \<^verbatim>\<open>stat\<close> raises), the first 1024
  bytes of a file (\<open>None\<close> when it cannot be opened), and the tree that \<^verbatim>\<open>os.walk\<close> lists
  under a directory: per directory its file names and its subdirectories, in listing order.
\<close>

datatype dir_tree = DirTree "string list" "(string \<times> dir_tree) list"

record fs_env =
  path_exists :: "string \<Rightarrow> py_error + bool"
  path_is_file :: "string \<Rightarrow> py_error + bool"
  stat_size :: "string \<Rightarrow> int option"
  first_chunk :: "string \<Rightarrow> string option"
  listing :: "string \<Rightarrow> dir_tree"

definition is_binary_file :: "fs_env \<Rightarrow> string \<Rightarrow> bool" where
  "is_binary_file fs fpath =
     (case first_chunk fs fpath of None \<Rightarrow> True | Some chunk \<Rightarrow> CHR 0x00 \<in> set chunk)"

definition is_supported_file :: "fs_env \<Rightarrow> string \<Rightarrow> bool" where
  "is_supported_file fs fpath =
     (if map_of supported_extensions (lower (path_suffix fpath)) = None then False
      else case stat_size fs fpath of
             None \<Rightarrow> False
           | Some sz \<Rightarrow> if sz > 1024 * 1024 then False
                        else if is_binary_file fs fpath then False else True)"

definition skip_dirs :: "string list" where
  "skip_dirs =
     [''.git'', ''.svn'', ''.hg'', ''.bzr'', ''node_modules'', ''__pycache__'', ''.pytest_cache'',
      ''venv'', ''env'', ''.env'', ''virtualenv'', ''build'', ''dist'', ''target'', ''bin'', ''obj'',
      ''.idea'', ''.vscode'', ''.vs'', ''coverage'', ''.coverage'', ''.nyc_output'',
      ''logs'', ''log'', ''tmp'', ''temp'']"

definition should_skip_directory :: "string \<Rightarrow> bool" where
  "should_skip_directory dir_name \<longleftrightarrow>
     lower dir_name \<in> set skip_dirs \<or> startswith dir_name ''.''"

text \<open>The loop over \<^verbatim>\<open>os.walk(directory)\<close>: the skipped directories are removed from
  \<^verbatim>\<open>dirs\<close> before the walk descends; at \<^verbatim>\<open>max_depth\<close> the directory's own files are
  not collected and the walk does not descend.\<close>

fun walk_supported :: "fs_env \<Rightarrow> int \<Rightarrow> int \<Rightarrow> string \<Rightarrow> dir_tree \<Rightarrow> string list" where
  "walk_supported fs max_depth current_depth rootp (DirTree filenames dirs) =
     (if current_depth \<ge> max_depth then []
      else filter (is_supported_file fs) (map (\<lambda>filename. rootp @ ''/'' @ filename) filenames)
           @ concat (map (\<lambda>(d, sub). walk_supported fs max_depth (current_depth + 1) (rootp @ ''/'' @ d) sub)
                         (filter (\<lambda>(d, sub). \<not> should_skip_directory d) dirs)))"

text \<open>\<^verbatim>\<open>supported_files[i:i + batch_size]\<close> for \<^verbatim>\<open>i\<close> in steps of \<^verbatim>\<open>batch_size\<close>.\<close>

function batches :: "nat \<Rightarrow> 'a list \<Rightarrow> 'a list list" where
  "batches n xs = (if n = 0 \<or> xs = [] then [] else take n xs # batches n (drop n xs))"
  by pat_completeness auto
termination
  by (relation "measure (\<lambda>(n, xs). length xs)") auto

declare batches.simps [simp del]

text \<open>The results of one \<^verbatim>\<open>asyncio.gather(..., return_exceptions=True)\<close>: a \<^verbatim>\<open>FileInfo\<close>
  is appended, an exception is logged.\<close>

definition gather_batch :: "parser_env \<Rightarrow> string \<Rightarrow> string list \<Rightarrow> FileInfo list" where
  "gather_batch env bpath batch =
     concat (map (\<lambda>fpath. case parse_file env fpath bpath of Inr file_info \<Rightarrow> [file_info] | Inl e \<Rightarrow> [])
                 batch)"

definition path_parent :: "string \<Rightarrow> string" where
  "path_parent p = rev (drop 1 (dropWhile (\<lambda>c. c \<noteq> CHR ''/'') (rev p)))"

text \<open>The files that \<^verbatim>\<open>parse_directory\<close> hands to \<^verbatim>\<open>parse_file\<close> for a path that is a
  file (\<open>is_file\<close>) or a directory.\<close>

definition supported_files :: "fs_env \<Rightarrow> string \<Rightarrow> int \<Rightarrow> bool \<Rightarrow> string list" where
  "supported_files fs directory_path max_depth is_file =
     (if is_file
      then (if is_supported_file fs directory_path then [directory_path] else [])
      else walk_supported fs max_depth 0 directory_path (listing fs directory_path))"

text \<open>\<^verbatim>\<open>parse_directory\<close>. The calls \<^verbatim>\<open>path.exists()\<close> and \<^verbatim>\<open>path.is_file()\<close> are outside
  every \<^verbatim>\<open>try\<close>: an \<^verbatim>\<open>OSError\<close> they raise leaves the function.\<close>

definition parse_directory :: "parser_env \<Rightarrow> fs_env \<Rightarrow> string \<Rightarrow> int \<Rightarrow> py_error + FileInfo list" where
  "parse_directory env fs directory_path max_depth =
     (case path_exists fs directory_path of
        Inl e \<Rightarrow> Inl e
      | Inr exists \<Rightarrow>
          if \<not> exists
          then Inl (ValueError (''Path does not exist: '' @ directory_path))
          else
            (case path_is_file fs directory_path of
               Inl e \<Rightarrow> Inl e
             | Inr is_file \<Rightarrow>
                 if is_file then
                   (if is_supported_file fs directory_path then
                      (case parse_file env directory_path (path_parent directory_path) of
                         Inr file_info \<Rightarrow> Inr [file_info]
                       | Inl e \<Rightarrow> Inr [])
                    else Inr [])
                 else
                   Inr (concat (map (gather_batch env directory_path)
                          (batches 50 (walk_supported fs max_depth 0 directory_path
                                         (listing fs directory_path)))))))"

section \<open>Duplication detector (app/analyzers/duplication_analyzer.py)\<close>

definition min_duplicate_lines :: nat where
  "min_duplicate_lines = 5"

text \<open>A block dictionary of \<^verbatim>\<open>_extract_code_blocks\<close>. \<^verbatim>\<open>hashlib.md5(..).hexdigest()\<close> is
  the parameter \<open>md5\<close> of the functions below.\<close>

record code_block =
  cb_content :: string
  cb_hash :: string
  cb_start_line :: int
  cb_end_line :: int
  cb_line_count :: int
  cb_file_path :: string
  cb_file_hash :: string

text \<open>The loop variables of \<^verbatim>\<open>_extract_code_blocks\<close>.\<close>

record eb_state =
  eb_blocks :: "code_block list"
  eb_current_block :: "string list"
  eb_current_start :: nat
  eb_base_indent :: "nat option"

definition make_block :: "(string \<Rightarrow> string) \<Rightarrow> FileInfo \<Rightarrow> string list \<Rightarrow> nat \<Rightarrow> nat \<Rightarrow> code_block" where
  "make_block md5 file_info current_block current_start end_line =
     (let block_content = join [CHR 0x0A] current_block
      in \<lparr>cb_content = block_content,
          cb_hash = md5 block_content,
          cb_start_line = int current_start + 1,
          cb_end_line = int end_line,
          cb_line_count = int (length current_block),
          cb_file_path = relative_path file_info,
          cb_file_hash = hash file_info\<rparr>)"

text \<open>\<^verbatim>\<open>if current_block and len(current_block) >= self.min_duplicate_lines: blocks.append(..)\<close>.\<close>

definition flush_block :: "(string \<Rightarrow> string) \<Rightarrow> FileInfo \<Rightarrow> nat \<Rightarrow> eb_state \<Rightarrow> code_block list" where
  "flush_block md5 file_info end_line st =
     (if eb_current_block st \<noteq> [] \<and> length (eb_current_block st) \<ge> min_duplicate_lines
      then eb_blocks st @ [make_block md5 file_info (eb_current_block st) (eb_current_start st) end_line]
      else eb_blocks st)"

definition blank_or_comment :: "string \<Rightarrow> bool" where
  "blank_or_comment line \<longleftrightarrow>
     (let stripped = strip line
      in stripped = [] \<or> startswith stripped ''#'' \<or> startswith stripped ''//'')"

definition indent_of :: "string \<Rightarrow> nat" where
  "indent_of line = length line - length (lstrip line)"

definition extract_step :: "(string \<Rightarrow> string) \<Rightarrow> FileInfo \<Rightarrow> nat \<Rightarrow> string \<Rightarrow> eb_state \<Rightarrow> eb_state" where
  "extract_step md5 file_info i line st =
     (if blank_or_comment line then
        st\<lparr>eb_blocks := flush_block md5 file_info i st, eb_current_block := [],
           eb_base_indent := None\<rparr>
      else
        (let indent = indent_of line in
         case eb_base_indent st of
           None \<Rightarrow> st\<lparr>eb_base_indent := Some indent, eb_current_start := i,
                      eb_current_block := [line]\<rparr>
         | Some base_indent \<Rightarrow>
             if indent \<ge> base_indent then st\<lparr>eb_current_block := eb_current_block st @ [line]\<rparr>
             else st\<lparr>eb_blocks := flush_block md5 file_info i st,
                     eb_base_indent := Some indent, eb_current_start := i,
                     eb_current_block := [line]\<rparr>))"

fun extract_loop :: "(string \<Rightarrow> string) \<Rightarrow> FileInfo \<Rightarrow> nat \<Rightarrow> string list \<Rightarrow> eb_state \<Rightarrow> eb_state" where
  "extract_loop md5 file_info i [] st = st"
| "extract_loop md5 file_info i (line # rest) st =
     extract_loop md5 file_info (Suc i) rest (extract_step md5 file_info i line st)"

definition extract_code_blocks :: "(string \<Rightarrow> string) \<Rightarrow> FileInfo \<Rightarrow> code_block list" where
  "extract_code_blocks md5 file_info =
     (let lines = splitlines (content file_info);
          st = extract_loop md5 file_info 0 lines
                 \<lparr>eb_blocks = [], eb_current_block = [], eb_current_start = 0,
                  eb_base_indent = None\<rparr>
      in flush_block md5 file_info (length lines) st)"

text \<open>The keys of \<^verbatim>\<open>hash_groups\<close> in insertion order, and the group of one key.\<close>

definition first_occurrences :: "'a list \<Rightarrow> 'a list" where
  "first_occurrences xs = rev (remdups (rev xs))"

definition hash_groups :: "code_block list \<Rightarrow> (string \<times> code_block list) list" where
  "hash_groups code_blocks =
     map (\<lambda>h. (h, filter (\<lambda>block. cb_hash block = h) code_blocks))
         (first_occurrences (map cb_hash code_blocks))"

definition block_location :: "code_block \<Rightarrow> string" where
  "block_location b =
     cb_file_path b @ '':'' @ str_int (cb_start_line b) @ ''-'' @ str_int (cb_end_line b)"

text \<open>\<^verbatim>\<open>[.. for j, b in enumerate(blocks) if j != i]\<close>.\<close>

definition others_at :: "nat \<Rightarrow> 'a list \<Rightarrow> 'a list" where
  "others_at i xs = take i xs @ drop (Suc i) xs"

definition exact_issue :: "code_block list \<Rightarrow> nat \<Rightarrow> CodeIssue" where
  "exact_issue blocks i =
     (let block = blocks ! i;
          other_locations = map block_location (others_at i blocks)
      in \<lparr>issue_id = Some (''exact_dup_'' @ cb_file_hash block @ ''_'' @ str_int (cb_start_line block)),
          category = DUPLICATION,
          severity = (if cb_line_count block > 20 then HIGH else MEDIUM),
          title = ''Exact Code Duplication ('' @ str_int (cb_line_count block) @ '' lines)'',
          description = ''Code block duplicated in '' @ str_int (int (length blocks))
             @ '' locations: '' @ join '', '' other_locations,
          file_path = cb_file_path block,
          line_number = Some (cb_start_line block),
          line_range = Some (cb_start_line block, cb_end_line block),
          suggestion = ''Extract common code into a shared function or module'',
          impact_score = min (of_int (cb_line_count block) / 5) 10,
          confidence = 1,
          rule_id = Some ''exact_duplication'',
          fix_complexity = ''medium'',
          estimated_fix_time = Some (cb_line_count block * 3)\<rparr>)"

definition group_issues :: "code_block list \<Rightarrow> CodeIssue list" where
  "group_issues blocks =
     (case blocks of
        [] \<Rightarrow> []
      | b0 # bs \<Rightarrow>
          if length blocks > 1 \<and> cb_line_count b0 \<ge> int min_duplicate_lines
          then map (exact_issue blocks) [0..<length blocks] else [])"

definition analyze_exact_duplicates :: "(string \<Rightarrow> string) \<Rightarrow> FileInfo list \<Rightarrow> CodeIssue list" where
  "analyze_exact_duplicates md5 files =
     (let code_blocks = concat (map (extract_code_blocks md5) files)
      in concat (map (\<lambda>(block_hash, blocks). group_issues blocks) (hash_groups code_blocks)))"

text \<open>\<^verbatim>\<open>_deduplicate_issues\<close>: the first issue of every key \<^verbatim>\<open>(file_path, line_number, title)\<close>.\<close>

definition issue_key :: "CodeIssue \<Rightarrow> string \<times> int option \<times> string" where
  "issue_key issue = (file_path issue, line_number issue, title issue)"

fun dedup_from :: "(string \<times> int option \<times> string) list \<Rightarrow> CodeIssue list \<Rightarrow> CodeIssue list" where
  "dedup_from seen [] = []"
| "dedup_from seen (issue # issues) =
     (if issue_key issue \<in> set seen then dedup_from seen issues
      else issue # dedup_from (issue_key issue # seen) issues)"

definition deduplicate_issues :: "CodeIssue list \<Rightarrow> CodeIssue list" where
  "deduplicate_issues issues = dedup_from [] issues"



text \<open>\<^verbatim>\<open>DuplicationAnalyzer.analyze\<close>: the results of the five passes are concatenated in order,
  the exact duplicates first, and deduplicated. The issues of the four other passes (those that
  returned a list) are the parameter \<open>other_results\<close>.\<close>

definition duplication_analyze :: "(string \<Rightarrow> string) \<Rightarrow> FileInfo list \<Rightarrow> CodeIssue list \<Rightarrow> CodeIssue list" where
  "duplication_analyze md5 files other_results =
     deduplicate_issues (analyze_exact_duplicates md5 files @ other_results)"








section \<open>AST pattern visitor (app/analyzers/ast_analyzer.py)\<close>

text \<open>The findings of \<^verbatim>\<open>CodePatternVisitor\<close>. Fields that the constructor call does not
  give take the defaults of \<^verbatim>\<open>CodeIssue\<close>.\<close>

definition quoted :: "string \<Rightarrow> string" where
  "quoted s = [CHR 0x27] @ s @ [CHR 0x27]"

definition long_parameter_list_issue :: "FileInfo \<Rightarrow> string \<Rightarrow> int \<Rightarrow> string list \<Rightarrow> CodeIssue" where
  "long_parameter_list_issue file_info name lno args =
     \<lparr>issue_id = Some (''long_param_list_'' @ hash file_info @ ''_'' @ str_int lno),
      category = COMPLEXITY,
      severity = MEDIUM,
      title = ''Long Parameter List: '' @ name,
      description = ''Function '' @ quoted name @ '' has '' @ str_int (int (length args))
         @ '' parameters'',
      file_path = relative_path file_info,
      line_number = Some lno,
      line_range = None,
      suggestion = ''Consider using parameter objects or reducing parameter count'',
      impact_score = min (of_nat (length args)) 10,
      confidence = 9 / 10,
      rule_id = Some ''long_parameter_list'',
      fix_complexity = ''easy'',
      estimated_fix_time = None\<rparr>"

definition missing_docstring_issue :: "FileInfo \<Rightarrow> string \<Rightarrow> int \<Rightarrow> CodeIssue" where
  "missing_docstring_issue file_info name lno =
     \<lparr>issue_id = Some (''missing_docstring_'' @ hash file_info @ ''_'' @ str_int lno),
      category = DOCUMENTATION,
      severity = LOW,
      title = ''Missing Docstring: '' @ name,
      description = ''Function '' @ quoted name @ '' lacks documentation'',
      file_path = relative_path file_info,
      line_number = Some lno,
      line_range = None,
      suggestion = ''Add docstring to document function purpose and parameters'',
      impact_score = 2,
      confidence = 8 / 10,
      rule_id = Some ''missing_docstring'',
      fix_complexity = ''easy'',
      estimated_fix_time = None\<rparr>"

definition class_missing_docstring_issue :: "FileInfo \<Rightarrow> string \<Rightarrow> int \<Rightarrow> CodeIssue" where
  "class_missing_docstring_issue file_info name lno =
     \<lparr>issue_id = Some (''class_missing_docstring_'' @ hash file_info @ ''_'' @ str_int lno),
      category = DOCUMENTATION,
      severity = LOW,
      title = ''Missing Class Docstring: '' @ name,
      description = ''Class '' @ quoted name @ '' lacks documentation'',
      file_path = relative_path file_info,
      line_number = Some lno,
      line_range = None,
      suggestion = ''Add docstring to document class purpose and usage'',
      impact_score = 3,
      confidence = 8 / 10,
      rule_id = Some ''missing_class_docstring'',
      fix_complexity = ''easy'',
      estimated_fix_time = None\<rparr>"

definition bare_except_issue :: "FileInfo \<Rightarrow> int \<Rightarrow> CodeIssue" where
  "bare_except_issue file_info lno =
     \<lparr>issue_id = Some (''bare_except_'' @ hash file_info @ ''_'' @ str_int lno),
      category = STYLE,
      severity = MEDIUM,
      title = ''Bare Except Clause'',
      description = ''Using bare '' @ quoted ''except:'' @ '' clause can hide errors'',
      file_path = relative_path file_info,
      line_number = Some lno,
      line_range = None,
      suggestion = ''Specify exception types or use '' @ quoted ''except Exception:'',
      impact_score = 5,
      confidence = 9 / 10,
      rule_id = Some ''bare_except'',
      fix_complexity = ''easy'',
      estimated_fix_time = None\<rparr>"

text \<open>\<^verbatim>\<open>not ast.get_docstring(node)\<close>: no docstring, or an empty one.\<close>

definition no_docstring :: "string option \<Rightarrow> bool" where
  "no_docstring doc \<longleftrightarrow> doc = None \<or> doc = Some []"

text \<open>What \<^verbatim>\<open>visit_FunctionDef\<close>, \<^verbatim>\<open>visit_ClassDef\<close> and \<^verbatim>\<open>visit_Try\<close> append for one node
  before visiting its children; \<^verbatim>\<open>node.handlers\<close> are the handler children of a
  \<^verbatim>\<open>Try\<close>. Every other node class (also \<^verbatim>\<open>AsyncFunctionDef\<close>) has no visitor method.\<close>

definition node_issues :: "FileInfo \<Rightarrow> ast_kind \<Rightarrow> ast list \<Rightarrow> CodeIssue list" where
  "node_issues file_info k cs =
     (case k of
        FunctionDef name lno e args doc \<Rightarrow>
          (if length args > 7 then [long_parameter_list_issue file_info name lno args] else [])
          @ (if no_docstring doc then [missing_docstring_issue file_info name lno] else [])
      | ClassDef name lno e bases doc \<Rightarrow>
          (if no_docstring doc then [class_missing_docstring_issue file_info name lno] else [])
      | Try l \<Rightarrow>
          concat (map (\<lambda>handler. case kind handler of
                          ExceptHandler typed lno \<Rightarrow>
                            if \<not> typed then [bare_except_issue file_info lno] else []
                        | _ \<Rightarrow> []) cs)
      | _ \<Rightarrow> [])"

text \<open>\<^verbatim>\<open>CodePatternVisitor.visit\<close> with the list \<^verbatim>\<open>self.issues\<close> passed along; the
  attributes \<^verbatim>\<open>current_function\<close> and \<^verbatim>\<open>current_class\<close> are written and never read.\<close>

fun CodePatternVisitor :: "FileInfo \<Rightarrow> ast \<Rightarrow> CodeIssue list \<Rightarrow> CodeIssue list" where
  "CodePatternVisitor file_info (Node k cs) issues =
     fold (CodePatternVisitor file_info) cs (issues @ node_issues file_info k cs)"

text \<open>The node classes for which \<^verbatim>\<open>CodePatternVisitor\<close> has a method.\<close>

fun cp_has_method :: "ast_kind \<Rightarrow> bool" where
  "cp_has_method (FunctionDef n l e a d) = True"
| "cp_has_method (ClassDef n l e b d) = True"
| "cp_has_method (Try l) = True"
| "cp_has_method k = False"

text \<open>\<^verbatim>\<open>_analyze_code_patterns\<close>, called with \<open>frames\<close> stack frames left: the visit of
  each file is inside \<^verbatim>\<open>try ... except Exception\<close>, and the findings of a file are added
  after its visit, so a file whose visit raises \<^verbatim>\<open>RecursionError\<close> adds nothing.\<close>

definition analyze_code_patterns :: "nat \<Rightarrow> FileInfo list \<Rightarrow> CodeIssue list" where
  "analyze_code_patterns frames files =
     concat (map (\<lambda>file_info. case ast_tree file_info of
                    None \<Rightarrow> []
                  | Some tree \<Rightarrow>
                      if frames < visit_depth cp_has_method tree then []
                      else CodePatternVisitor file_info tree []) files)"

text \<open>The list \<^verbatim>\<open>analysis_results['issues']\<close> of \<^verbatim>\<open>ASTAnalyzer.analyze\<close>: the findings of
  the pattern visitor, then those of \<^verbatim>\<open>_detect_code_smells\<close>, which are the parameter
  \<open>code_smells\<close>.\<close>

definition ast_analyzer_issues :: "nat \<Rightarrow> (FileInfo list \<Rightarrow> CodeIssue list) \<Rightarrow> FileInfo list \<Rightarrow> CodeIssue list" where
  "ast_analyzer_issues frames code_smells files =
     (let python_files = filter (\<lambda>f. language f = ''python'' \<and> ast_tree f \<noteq> None) files
      in if python_files = [] then []
         else analyze_code_patterns frames python_files @ code_smells python_files)"

section \<open>Function length and parameter count (app/analyzers/complexity_analyzer.py)\<close>

definition long_function_issue :: "FileInfo \<Rightarrow> func_desc \<Rightarrow> CodeIssue" where
  "long_function_issue file_info func =
     (let func_name = fd_name func; line_start = fd_line_start func;
          func_length = fd_line_end func - line_start + 1
      in \<lparr>issue_id = Some (''func_length_'' @ hash file_info @ ''_'' @ str_int line_start),
          category = COMPLEXITY,
          severity = (if func_length > complexity_thresholds ''function_length'' high
                      then HIGH else MEDIUM),
          title = ''Long Function: '' @ func_name,
          description = ''Function '' @ quoted func_name @ '' is '' @ str_int func_length
             @ '' lines long'',
          file_path = relative_path file_info,
          line_number = Some line_start,
          line_range = None,
          suggestion = ''Consider breaking this function into smaller functions. Target length: < ''
             @ str_int (complexity_thresholds ''function_length'' medium) @ '' lines'',
          impact_score = min (of_int func_length / 20) 10,
          confidence = 9 / 10,
          rule_id = Some ''long_function'',
          fix_complexity = ''medium'',
          estimated_fix_time = Some (func_length * 2)\<rparr>)"

text \<open>\<^verbatim>\<open>args = func.get('args', [])\<close>.\<close>

definition func_args :: "func_desc \<Rightarrow> string list" where
  "func_args func = (case fd_args func of None \<Rightarrow> [] | Some args \<Rightarrow> args)"

definition too_many_parameters_issue :: "FileInfo \<Rightarrow> func_desc \<Rightarrow> CodeIssue" where
  "too_many_parameters_issue file_info func =
     (let func_name = fd_name func; line_start = fd_line_start func;
          param_count = int (length (func_args func))
      in \<lparr>issue_id = Some (''param_count_'' @ hash file_info @ ''_'' @ str_int line_start),
          category = COMPLEXITY,
          severity = (if param_count \<le> complexity_thresholds ''parameter_count'' high
                      then MEDIUM else HIGH),
          title = ''Too Many Parameters: '' @ func_name,
          description = ''Function '' @ quoted func_name @ '' has '' @ str_int param_count
             @ '' parameters'',
          file_path = relative_path file_info,
          line_number = Some line_start,
          line_range = None,
          suggestion = ''Consider using parameter objects or reducing parameter count. Target: < ''
             @ str_int (complexity_thresholds ''parameter_count'' medium) @ '' parameters'',
          impact_score = min (of_int param_count) 10,
          confidence = 8 / 10,
          rule_id = Some ''too_many_parameters'',
          fix_complexity = ''medium'',
          estimated_fix_time = Some (param_count * 5)\<rparr>)"

definition function_issues :: "FileInfo \<Rightarrow> func_desc \<Rightarrow> CodeIssue list" where
  "function_issues file_info func =
     (if fd_line_end func - fd_line_start func + 1 > complexity_thresholds ''function_length'' medium
      then [long_function_issue file_info func] else [])
     @ (if int (length (func_args func)) > complexity_thresholds ''parameter_count'' medium
        then [too_many_parameters_issue file_info func] else [])"

text \<open>\<^verbatim>\<open>if file_info.functions:\<close> skips \<^verbatim>\<open>None\<close> and the empty list.\<close>

definition analyze_function_complexity :: "FileInfo list \<Rightarrow> CodeIssue list" where
  "analyze_function_complexity files =
     concat (map (\<lambda>file_info. case file_functions file_info of
                    None \<Rightarrow> []
                  | Some funcs \<Rightarrow> concat (map (function_issues file_info) funcs)) files)"

text \<open>\<^verbatim>\<open>ComplexityAnalyzer.analyze\<close> concatenates the lists of its six passes in order. The
  function pass is the third; the issues of the two passes before it and of the three passes
  after it are the parameters \<open>first_passes\<close> and \<open>last_passes\<close>.\<close>

definition complexity_analyze :: "CodeIssue list \<Rightarrow> CodeIssue list \<Rightarrow> FileInfo list \<Rightarrow> CodeIssue list" where
  "complexity_analyze first_passes last_passes files =
     first_passes @ analyze_function_complexity files @ last_passes"

section \<open>Quality agent (app/agents/quality_agent.py)\<close>

record QualityMetrics =
  overall_score :: rat
  maintainability_index :: rat
  cyclomatic_complexity :: rat
  test_coverage :: rat
  code_duplication :: rat
  technical_debt_ratio :: rat
  security_score :: rat
  performance_score :: rat
  documentation_coverage :: rat
  dependency_health :: rat

text \<open>\<^verbatim>\<open>round(x, 1)\<close> on exact rationals, ties to the even digit.\<close>

definition round1 :: "rat \<Rightarrow> rat" where
  "round1 x =
     (let y = x * 10; f = \<lfloor>y\<rfloor>; d = y - of_int f
      in of_int (if d < 1 / 2 then f else if 1 / 2 < d then f + 1
                 else if even f then f else f + 1) / 10)"

definition count_where :: "('a \<Rightarrow> bool) \<Rightarrow> 'a list \<Rightarrow> int" where
  "count_where P xs = int (length (filter P xs))"

text \<open>The values of the \<^verbatim>\<open>except\<close> branch of \<^verbatim>\<open>_calculate_quality_metrics\<close>.\<close>

definition default_metrics :: QualityMetrics where
  "default_metrics =
     \<lparr>overall_score = 50, maintainability_index = 50, cyclomatic_complexity = 5,
      test_coverage = 0, code_duplication = 20, technical_debt_ratio = 30,
      security_score = 50, performance_score = 50, documentation_coverage = 40,
      dependency_health = 60\<rparr>"

text \<open>The \<^verbatim>\<open>try\<close> branch of \<^verbatim>\<open>_calculate_quality_metrics\<close>.\<close>

definition computed_metrics :: "CodeIssue list \<Rightarrow> FileInfo list \<Rightarrow> QualityMetrics" where
  "computed_metrics issues parsed_files =
     (let critical_issues = count_where (\<lambda>i. severity i = CRITICAL) issues;
          high_issues = count_where (\<lambda>i. severity i = HIGH) issues;
          security_score = max 0 (100 - count_where (\<lambda>i. category i = SECURITY) issues * 5);
          performance_score = max 0 (100 - count_where (\<lambda>i. category i = PERFORMANCE) issues * 3);
          complexity_issues = count_where (\<lambda>i. category i = COMPLEXITY) issues;
          avg_cyclomatic = (if parsed_files \<noteq> []
             then sum_list (map complexity_score parsed_files) / of_nat (length parsed_files)
             else 1);
          maintainability_index = max 0 (100 - of_int (complexity_issues * 3) - avg_cyclomatic * 2);
          duplication_issues = count_where (\<lambda>i. category i = DUPLICATION) issues;
          code_duplication = min 100 (of_int duplication_issues * (5 / 2));
          tech_debt_factors = critical_issues * 8 + high_issues * 4 + complexity_issues * 2;
          total_lines = (if parsed_files \<noteq> [] then sum_list (map line_count parsed_files) else 1);
          technical_debt_ratio = min 100 (of_int tech_debt_factors / of_int total_lines * 1000);
          documentation_coverage =
            max 0 (80 - count_where (\<lambda>i. category i = DOCUMENTATION) issues * 10);
          dependency_issues = count_where
            (\<lambda>i. contains ''dependency'' (lower (title i)) \<or> contains ''import'' (lower (title i))) issues;
          dependency_health = max 0 (100 - dependency_issues * 5);
          test_coverage = max 0 (70 - count_where (\<lambda>i. contains ''test'' (lower (title i))) issues * 15);
          overall_score =
            of_int security_score * (25 / 100) + of_int performance_score * (20 / 100)
            + maintainability_index * (20 / 100) + (100 - code_duplication) * (15 / 100)
            + (100 - technical_debt_ratio) * (10 / 100)
            + of_int documentation_coverage * (5 / 100) + of_int dependency_health * (5 / 100)
      in \<lparr>overall_score = round1 overall_score,
          maintainability_index = round1 maintainability_index,
          cyclomatic_complexity = round1 avg_cyclomatic,
          test_coverage = round1 (of_int test_coverage),
          code_duplication = round1 code_duplication,
          technical_debt_ratio = round1 technical_debt_ratio,
          security_score = round1 (of_int security_score),
          performance_score = round1 (of_int performance_score),
          documentation_coverage = round1 (of_int documentation_coverage),
          dependency_health = round1 (of_int dependency_health)\<rparr>)"

text \<open>\<^verbatim>\<open>_calculate_quality_metrics\<close>: the only operation of the \<^verbatim>\<open>try\<close> branch that can
  raise is the division by \<^verbatim>\<open>total_lines\<close>, which is the sum of the line counts of a
  non-empty file list and 1 for the empty list.\<close>

definition calculate_quality_metrics :: "CodeIssue list \<Rightarrow> FileInfo list \<Rightarrow> QualityMetrics" where
  "calculate_quality_metrics issues parsed_files =
     (if parsed_files \<noteq> [] \<and> sum_list (map line_count parsed_files) = 0
      then default_metrics
      else computed_metrics issues parsed_files)"

record LanguageStats =
  ls_language :: string
  files_count :: int
  lines_of_code :: int
  percentage :: rat
  ls_complexity_score :: rat

text \<open>\<^verbatim>\<open>_calculate_language_stats\<close>: one entry per language, in the order of first occurrence.\<close>

definition calculate_language_stats :: "FileInfo list \<Rightarrow> LanguageStats list" where
  "calculate_language_stats parsed_files =
     (let total_lines = sum_list (map line_count parsed_files)
      in map (\<lambda>lang.
           let fs = filter (\<lambda>f. language f = lang) parsed_files;
               files = int (length fs);
               lines = sum_list (map line_count fs);
               complexity = sum_list (map complexity_score fs)
           in \<lparr>ls_language = lang, files_count = files, lines_of_code = lines,
               percentage = round1 (if total_lines > 0
                                    then of_int lines / of_int total_lines * 100 else 0),
               ls_complexity_score = round1 (if files > 0 then complexity / of_int files else 0)\<rparr>)
         (first_occurrences (map language parsed_files)))"

text \<open>\<^verbatim>\<open>issue.category.value\<close>.\<close>

fun category_value :: "IssueCategory \<Rightarrow> string" where
  "category_value SECURITY = ''security''"
| "category_value PERFORMANCE = ''performance''"
| "category_value COMPLEXITY = ''complexity''"
| "category_value DUPLICATION = ''duplication''"
| "category_value TESTING = ''testing''"
| "category_value DOCUMENTATION = ''documentation''"
| "category_value MAINTAINABILITY = ''maintainability''"
| "category_value STYLE = ''style''"
| "category_value ARCHITECTURE = ''architecture''"
| "category_value DEPENDENCIES = ''dependencies''"

text \<open>\<^verbatim>\<open>_ensure_issue_ids\<close>: an issue without \<^verbatim>\<open>id\<close> (or with an empty one) gets the first
  12 characters of an md5 digest; every other field is left as it is.\<close>

definition ensure_issue_id :: "(string \<Rightarrow> string) \<Rightarrow> nat \<Rightarrow> CodeIssue \<Rightarrow> CodeIssue" where
  "ensure_issue_id md5 i issue =
     (if issue_id issue = None \<or> issue_id issue = Some []
      then issue\<lparr>issue_id := Some (take 12 (md5
             (category_value (category issue) @ ''_'' @ file_path issue @ ''_''
              @ str_int (case line_number issue of None \<Rightarrow> 0 | Some l \<Rightarrow> l)
              @ ''_'' @ str_nat i)))\<rparr>
      else issue)"

definition ensure_issue_ids :: "(string \<Rightarrow> string) \<Rightarrow> CodeIssue list \<Rightarrow> CodeIssue list" where
  "ensure_issue_ids md5 issues =
     map (\<lambda>(i, issue). ensure_issue_id md5 i issue) (enumerate 0 issues)"

subsection \<open>The analysis of a code base\<close>

text \<open>The dictionary returned by \<^verbatim>\<open>_perform_llm_analysis\<close>; \<open>insights\<close> holds the items of
  the \<^verbatim>\<open>insights\<close> dictionary with \<^verbatim>\<open>str(value)\<close> for the value. The summary and the
  recommendations come from the answer of the language model and may have any JSON type:
  \<open>validation_error\<close> is \<open>None\<close> when they are a string and a list of strings, as
  \<^verbatim>\<open>AnalysisResponse\<close> requires, and the message of the pydantic \<^verbatim>\<open>ValidationError\<close>
  otherwise.\<close>

record llm_result =
  llm_summary :: string
  llm_recommendations :: "string list"
  additional_issues :: "CodeIssue list"
  insights :: "(string \<times> string) list"
  validation_error :: "string option"

text \<open>What \<^verbatim>\<open>analyze_codebase\<close> awaits and does not compute itself: the security and
  performance detectors, the passes of the complexity and duplication detectors other than
  the function pass and the exact-duplicate pass, the code-smell visitor and the language model
  (which gets the parsed files, the issues of the four detectors and \<^verbatim>\<open>use_rag\<close>). Each of them
  catches its own exceptions and returns a list or a dictionary. \<open>stack_frames\<close> is the number
  of stack frames left for the visitors of the AST analyzer.\<close>

record detectors =
  security_analyze :: "FileInfo list \<Rightarrow> CodeIssue list"
  performance_analyze :: "FileInfo list \<Rightarrow> CodeIssue list"
  complexity_first_passes :: "FileInfo list \<Rightarrow> CodeIssue list"
  complexity_last_passes :: "FileInfo list \<Rightarrow> CodeIssue list"
  duplication_other_passes :: "FileInfo list \<Rightarrow> CodeIssue list"
  code_smells :: "FileInfo list \<Rightarrow> CodeIssue list"
  perform_llm_analysis :: "FileInfo list \<Rightarrow> CodeIssue list \<Rightarrow> bool \<Rightarrow> llm_result"
  stack_frames :: nat

record ArchitectureInsight =
  insight_type :: string
  insight_description :: string
  affected_files :: "string list"
  insight_severity :: IssueSeverity
  insight_suggestion :: string

record repository_info =
  ri_path :: string
  ri_file_count :: int
  ri_total_lines :: int
  ri_total_size :: int
  ri_languages :: "string set"
  ri_analysis_strategy :: string

typedecl DependencyInfo

text \<open>\<^verbatim>\<open>AnalysisResponse\<close> without the clock readings \<^verbatim>\<open>processing_time\<close> and
  \<^verbatim>\<open>timestamp\<close>.\<close>

record AnalysisResponse =
  analysis_id :: string
  repository :: repository_info
  quality_metrics :: QualityMetrics
  language_stats :: "LanguageStats list"
  issues :: "CodeIssue list"
  dependencies :: "DependencyInfo list"
  architecture_insights :: "ArchitectureInsight list"
  summary :: string
  recommendations :: "string list"
  files_analyzed :: int
  lines_analyzed :: int

text \<open>The insights built from the answer of the language model.\<close>

definition llm_insights :: "llm_result \<Rightarrow> ArchitectureInsight list" where
  "llm_insights llm =
     map (\<lambda>(key, val).
            \<lparr>insight_type = ''llm_insight'',
             insight_description = key @ '': '' @ take 200 val,
             affected_files = [],
             insight_severity = INFO,
             insight_suggestion = ''Consider this insight for code improvement''\<rparr>)
         (filter (\<lambda>(key, val). key \<noteq> ''rag_response'') (insights llm))"

text \<open>
  \<^verbatim>\<open>analyze_codebase\<close>. The code base is parsed with the default \<^verbatim>\<open>max_depth\<close> of 10; every
  exception is re-raised as \<^verbatim>\<open>Exception("Analysis failed: ...")\<close>: the one of
  \<^verbatim>\<open>parse_directory\<close>, the \<^verbatim>\<open>ValueError\<close> for an empty file list, and the validation
  error of \<^verbatim>\<open>AnalysisResponse\<close>. The result of the AST analyzer is bound to \<open>ast_issues\<close>;
  the loop over it appends an insight only for an entry that is a \<^verbatim>\<open>dict\<close>, and its entries
  are \<^verbatim>\<open>CodeIssue\<close> objects, so the insights are those of the language model.
\<close>

definition analyze_codebase :: "parser_env \<Rightarrow> fs_env \<Rightarrow> detectors \<Rightarrow> string \<Rightarrow> py_error + AnalysisResponse" where
  "analyze_codebase env fs d codebase_path =
     (case parse_directory env fs codebase_path 10 of
        Inl e \<Rightarrow> Inl (Exception (''Analysis failed: '' @ error_str e))
      | Inr parsed_files \<Rightarrow>
          if parsed_files = []
          then Inl (Exception (''Analysis failed: '' @ ''No supported files found in codebase''))
          else
            (let total_chars = sum_list (map (\<lambda>f. int (length (content f))) parsed_files);
                 total_lines = sum_list (map line_count parsed_files);
                 use_rag = (total_chars > 50000);
                 security_issues = security_analyze d parsed_files;
                 performance_issues = performance_analyze d parsed_files;
                 complexity_issues = complexity_analyze (complexity_first_passes d parsed_files)
                    (complexity_last_passes d parsed_files) parsed_files;
                 duplication_issues = duplication_analyze (md5_hexdigest env) parsed_files
                    (duplication_other_passes d parsed_files);
                 traditional_issues = security_issues @ performance_issues @ complexity_issues
                    @ duplication_issues;
                 ast_issues = ast_analyzer_issues (stack_frames d) (code_smells d) parsed_files;
                 llm_analysis = perform_llm_analysis d parsed_files traditional_issues use_rag;
                 all_issues = ensure_issue_ids (md5_hexdigest env)
                    (traditional_issues @ additional_issues llm_analysis)
             in case validation_error llm_analysis of
                  Some msg \<Rightarrow> Inl (Exception (''Analysis failed: '' @ msg))
                | None \<Rightarrow>
                    Inr \<lparr>analysis_id = ''temp_id'',
                         repository = \<lparr>ri_path = codebase_path,
                            ri_file_count = int (length parsed_files),
                            ri_total_lines = total_lines,
                            ri_total_size = total_chars,
                            ri_languages = set (map language parsed_files),
                            ri_analysis_strategy = (if use_rag then ''RAG'' else ''Direct LLM'')\<rparr>,
                         quality_metrics = calculate_quality_metrics all_issues parsed_files,
                         language_stats = calculate_language_stats parsed_files,
                         issues = all_issues,
                         dependencies = [],
                         architecture_insights = llm_insights llm_analysis,
                         summary = llm_summary llm_analysis,
                         recommendations = llm_recommendations llm_analysis,
                         files_analyzed = int (length parsed_files),
                         lines_analyzed = total_lines\<rparr>))"

section \<open>Example inputs\<close>

definition example_function :: "nat \<Rightarrow> ast" where
  "example_function n = Node (FunctionDef ''g'' 1 1 [] None) (replicate n (Node (If 2) []))"

definition example_file :: "ast \<Rightarrow> FileInfo" where
  "example_file t = \<lparr>absolute_path = ''/repo/m.py'', relative_path = ''m.py'', language = ''python'',
     content = [], line_count = 0, size_bytes = 0, ast_tree = Some t, file_imports = Some [],
     file_functions = Some [], file_classes = Some [], complexity_score = 1, hash = ''h''\<rparr>"

definition example_env :: parser_env where
  "example_env = \<lparr>ast_parse = (\<lambda>s. if s = ''def f(:'' then SyntaxError
                                      else Parsed (Node Other [example_function 2])),
                   line_heuristics = (\<lambda>l s. ([], [], [])),
                   read_file_safely = (\<lambda>p. if p = ''/r/a.py'' then Some ''x = 1''
                                           else if p = ''/r/bad.py'' then Some ''def f(:''
                                           else if p = ''/r/src/b.go'' then Some ''if x && y {''
                                           else None),
                   md5_hexdigest = (\<lambda>s. ''0''),
                   relative_to = (\<lambda>p b. drop (length b + 1) p)\<rparr>"

text \<open>A file system with a directory \<^verbatim>\<open>/r\<close>, an empty directory, a missing path, a path
  below a directory without search permission (\<^verbatim>\<open>stat\<close> fails with \<^verbatim>\<open>EACCES\<close>), and a path
  whose permissions are withdrawn between the two checks.\<close>

definition example_fs :: fs_env where
  "example_fs = \<lparr>path_exists = (\<lambda>p. if p = ''/locked/repo''
                     then Inl (OSError ''[Errno 13] Permission denied'')
                     else Inr (p \<noteq> ''/missing'')),
                  path_is_file = (\<lambda>p. if p = ''/racy''
                     then Inl (OSError ''[Errno 13] Permission denied'')
                     else Inr (p = ''/r/a.py'')),
                  stat_size = (\<lambda>p. Some 10),
                  first_chunk = (\<lambda>p. Some ''x''),
                  listing = (\<lambda>p. if p = ''/r''
                     then DirTree [''a.py'', ''gone.py'', ''notes.txt'', ''bad.py'']
                            [(''.git'', DirTree [''x.py''] []), (''src'', DirTree [''b.go''] [])]
                     else DirTree [''notes.txt''] [])\<rparr>"



text \<open>Detectors that find nothing, and a language model that cannot be reached (the fallback
  dictionary of \<^verbatim>\<open>_perform_direct_llm_analysis\<close>).\<close>

definition quiet_detectors :: detectors where
  "quiet_detectors =
     \<lparr>security_analyze = (\<lambda>files. []),
      performance_analyze = (\<lambda>files. []),
      complexity_first_passes = (\<lambda>files. []),
      complexity_last_passes = (\<lambda>files. []),
      duplication_other_passes = (\<lambda>files. []),
      code_smells = (\<lambda>files. []),
      perform_llm_analysis = (\<lambda>files traditional_issues use_rag.
         \<lparr>llm_summary = ''Direct analysis completed with ''
             @ str_int (int (length traditional_issues)) @ '' traditional issues found'',
          llm_recommendations = [''Review traditional analysis results''],
          additional_issues = [],
          insights = [],
          validation_error = None\<rparr>),
      stack_frames = 900\<rparr>"









text \<open>A left-nested sum of \<open>n + 1\<close> constants (\<^verbatim>\<open>1 + 1 + ... + 1\<close>: every \<^verbatim>\<open>BinOp\<close> has its
  left operand, the operator and the right operand as children), and a module with the function
  \<open>g\<close> of 15 \<^verbatim>\<open>if\<close> statements followed by the assignment \<^verbatim>\<open>total = 1 + ... + 1\<close> of 500
  terms.\<close>

primrec deep_expression :: "nat \<Rightarrow> ast" where
  "deep_expression 0 = Node Other []"
| "deep_expression (Suc n) = Node Other [deep_expression n, Node Other [], Node Other []]"

definition recursion_tree :: ast where
  "recursion_tree =
     Node Other [example_function 15,
                 Node Other [Node Other [Node Other []], deep_expression 499]]"

section \<open>Structural extractor: the complexity score\<close>

lemma fold_python_complexity_step_ge: "c \<le> fold python_complexity_step ns c"
proof (induction ns arbitrary: c)
  case Nil
  show ?case by simp
next
  case (Cons n ns)
  have "c \<le> python_complexity_step n c"
    by (cases "(n, c)" rule: python_complexity_step.cases) (simp_all add: try_handlers_def)
  also have "\<dots> \<le> fold python_complexity_step ns (python_complexity_step n c)"
    by (rule Cons.IH)
  finally show ?case by simp
qed

lemma calculate_python_complexity_ge: "1 \<le> calculate_python_complexity tree"
proof -
  have "(1::int) \<le> fold python_complexity_step (walk tree) 1"
    by (rule fold_python_complexity_step_ge)
  then show ?thesis
    unfolding calculate_python_complexity_def by (metis of_int_1 of_int_le_iff)
qed

lemma fold_generic_complexity_step_ge: "c \<le> fold generic_complexity_step ls c"
proof (induction ls arbitrary: c)
  case Nil
  show ?case by simp
next
  case (Cons l ls)
  have "c \<le> generic_complexity_step l c"
    by (simp add: generic_complexity_step_def Let_def)
  also have "\<dots> \<le> fold generic_complexity_step ls (generic_complexity_step l c)"
    by (rule Cons.IH)
  finally show ?case by simp
qed

lemma calculate_generic_complexity_ge: "1 \<le> calculate_generic_complexity cont"
  unfolding calculate_generic_complexity_def by (rule fold_generic_complexity_step_ge)

lemma analyze_generic_ge: "1 \<le> complexity_score (analyze_generic env file_info)"
  by (simp add: analyze_generic_def calculate_generic_complexity_ge split: prod.splits)

lemma analyze_python_ast_ge: "1 \<le> complexity_score (analyze_python_ast env file_info)"
  by (simp add: analyze_python_ast_def calculate_python_complexity_ge analyze_generic_ge
           split: parse_outcome.splits)

lemma analyze_ast_ge: "1 \<le> complexity_score (analyze_ast env file_info)"
  by (simp add: analyze_ast_def analyze_python_ast_ge analyze_generic_ge)

text \<open>
  C1. Every \<^verbatim>\<open>FileInfo\<close> that \<^verbatim>\<open>parse_file\<close> returns has a complexity score of at least 1:
  after a successful parse (tree walk), after a syntax error (default 1), after any other
  parse failure (line heuristics), and for every language without a tree (line heuristics).
\<close>

theorem complexity_score_at_least_one:
  assumes "parse_file env fpath bpath = Inr file_info"
  shows "1 \<le> complexity_score file_info"
  using assms
  by (auto simp: parse_file_def Let_def analyze_ast_ge split: option.splits)

theorem complexity_score_at_least_one_witness:
  "(\<exists>f. parse_file example_env ''/r/a.py'' ''/r'' = Inr f \<and> 1 \<le> complexity_score f)
   \<and> (\<exists>f. parse_file example_env ''/r/bad.py'' ''/r'' = Inr f \<and> 1 \<le> complexity_score f)
   \<and> (\<exists>f. parse_file example_env ''/r/src/b.go'' ''/r'' = Inr f \<and> 1 \<le> complexity_score f)"
proof -
  have a: "\<exists>f. parse_file example_env ''/r/a.py'' ''/r'' = Inr f"
    by (simp add: parse_file_def example_env_def Let_def)
  have b: "\<exists>f. parse_file example_env ''/r/bad.py'' ''/r'' = Inr f"
    by (simp add: parse_file_def example_env_def Let_def)
  have c: "\<exists>f. parse_file example_env ''/r/src/b.go'' ''/r'' = Inr f"
    by (simp add: parse_file_def example_env_def Let_def)
  show ?thesis
    using a b c complexity_score_at_least_one [of example_env] by blast
qed

section \<open>Structural extractor: errors of a directory scan\<close>

lemma concat_batches: "0 < n \<Longrightarrow> concat (batches n xs) = xs"
proof (induction n xs rule: batches.induct)
  case (1 n xs)
  show ?case
  proof (cases "xs = []")
    case True
    then show ?thesis by (simp add: batches.simps)
  next
    case False
    then have "concat (batches n (drop n xs)) = drop n xs"
      using 1 by simp
    then show ?thesis
      using False 1(2) by (subst batches.simps) simp
  qed
qed

lemma gather_batches:
  "concat (map (gather_batch env bpath) (batches 50 xs)) = gather_batch env bpath xs"
proof -
  have "concat (map (gather_batch env bpath) bs) = gather_batch env bpath (concat bs)" for bs
    by (induction bs) (simp_all add: gather_batch_def)
  then show ?thesis by (simp add: concat_batches)
qed

text \<open>
  C8 (amended). \<^verbatim>\<open>parse_directory\<close> raises in exactly three cases: \<^verbatim>\<open>Path.exists()\<close>
  raises an \<^verbatim>\<open>OSError\<close>, which leaves the function unchanged; \<^verbatim>\<open>Path.exists()\<close> returns
  \<^verbatim>\<open>False\<close>, and the error is the \<^verbatim>\<open>ValueError\<close> "Path does not exist"; \<^verbatim>\<open>Path.exists()\<close>
  returns \<^verbatim>\<open>True\<close> and \<^verbatim>\<open>Path.is_file()\<close> raises an \<^verbatim>\<open>OSError\<close>, which leaves the
  function unchanged. When both checks return, the result is the list of the files that
  \<^verbatim>\<open>parse_file\<close> could build, in scan order: a file for which \<^verbatim>\<open>parse_file\<close> raises is left
  out and the others are kept; it is the empty list when no supported file is found.
  \<^verbatim>\<open>parse_file\<close> raises exactly when the file cannot be read or decoded; a file that does not
  parse is still returned (with default structure).
\<close>

theorem parse_directory_raises:
  "(parse_directory env fs directory_path max_depth = Inl e \<longleftrightarrow>
        path_exists fs directory_path = Inl e
      \<or> (path_exists fs directory_path = Inr False
          \<and> e = ValueError (''Path does not exist: '' @ directory_path))
      \<or> (path_exists fs directory_path = Inr True \<and> path_is_file fs directory_path = Inl e))
   \<and> (path_exists fs directory_path = Inr True \<and> path_is_file fs directory_path = Inr is_file
        \<longrightarrow> parse_directory env fs directory_path max_depth
            = Inr (gather_batch env
                     (if is_file then path_parent directory_path else directory_path)
                     (supported_files fs directory_path max_depth is_file)))
   \<and> (path_exists fs directory_path = Inr True \<and> path_is_file fs directory_path = Inr is_file
        \<and> supported_files fs directory_path max_depth is_file = []
        \<longrightarrow> parse_directory env fs directory_path max_depth = Inr [])
   \<and> ((\<exists>e. parse_file env fpath bpath = Inl e) \<longleftrightarrow> read_file_safely env fpath = None)"
proof -
  have a: "parse_directory env fs directory_path max_depth = Inl e \<longleftrightarrow>
        path_exists fs directory_path = Inl e
      \<or> (path_exists fs directory_path = Inr False
          \<and> e = ValueError (''Path does not exist: '' @ directory_path))
      \<or> (path_exists fs directory_path = Inr True \<and> path_is_file fs directory_path = Inl e)"
    by (auto simp: parse_directory_def split: sum.splits)
  have c: "path_exists fs directory_path = Inr True \<and> path_is_file fs directory_path = Inr is_file
        \<longrightarrow> parse_directory env fs directory_path max_depth
            = Inr (gather_batch env
                     (if is_file then path_parent directory_path else directory_path)
                     (supported_files fs directory_path max_depth is_file))"
    by (simp add: parse_directory_def supported_files_def gather_batches)
       (simp add: gather_batch_def split: sum.splits)
  have b: "path_exists fs directory_path = Inr True \<and> path_is_file fs directory_path = Inr is_file
        \<and> supported_files fs directory_path max_depth is_file = []
        \<longrightarrow> parse_directory env fs directory_path max_depth = Inr []"
    using c by (simp add: gather_batch_def)
  have d: "(\<exists>e. parse_file env fpath bpath = Inl e) \<longleftrightarrow> read_file_safely env fpath = None"
    by (simp add: parse_file_def Let_def split: option.splits)
  show ?thesis using a b c d by blast
qed

lemma example_supported_files:
  "supported_files example_fs ''/r'' 10 False
     = [''/r/a.py'', ''/r/gone.py'', ''/r/bad.py'', ''/r/src/b.go'']"
  "supported_files example_fs ''/empty'' 10 False = []"
  by code_simp+

lemma analyze_ast_relative_path:
  "relative_path (analyze_ast env file_info) = relative_path file_info"
  by (simp add: analyze_ast_def analyze_python_ast_def analyze_generic_def
           split: parse_outcome.splits prod.splits option.splits)

lemma example_gather:
  "map relative_path (gather_batch example_env ''/r'' [''/r/a.py'', ''/r/gone.py'', ''/r/bad.py'', ''/r/src/b.go''])
     = [''a.py'', ''bad.py'', ''src/b.go'']"
  by (simp add: gather_batch_def parse_file_def Let_def analyze_ast_relative_path example_env_def)

lemma example_checks:
  "path_exists example_fs ''/missing'' = Inr False"
  "path_exists example_fs ''/empty'' = Inr True"
  "path_is_file example_fs ''/empty'' = Inr False"
  "path_exists example_fs ''/r'' = Inr True"
  "path_is_file example_fs ''/r'' = Inr False"
  "path_exists example_fs ''/locked/repo'' = Inl (OSError ''[Errno 13] Permission denied'')"
  "path_exists example_fs ''/racy'' = Inr True"
  "path_is_file example_fs ''/racy'' = Inl (OSError ''[Errno 13] Permission denied'')"
  by (simp_all add: example_fs_def)

theorem parse_directory_raises_witness:
  "parse_directory example_env example_fs ''/missing'' 10
     = Inl (ValueError ''Path does not exist: /missing'')
   \<and> parse_directory example_env example_fs ''/empty'' 10 = Inr []
   \<and> (\<exists>fs'. parse_directory example_env example_fs ''/r'' 10 = Inr fs'
          \<and> map relative_path fs' = [''a.py'', ''bad.py'', ''src/b.go''])
   \<and> (\<exists>e. parse_file example_env ''/r/gone.py'' ''/r'' = Inl e)"
proof -
  have r: "read_file_safely example_env ''/r/gone.py'' = None"
    by (simp add: example_env_def)
  show ?thesis
    using parse_directory_raises [of example_env example_fs "''/missing''" 10
             "ValueError ''Path does not exist: /missing''" False "''/r/gone.py''" "''/r''"]
          parse_directory_raises [of example_env example_fs "''/empty''" 10
             "ValueError []" False "''/r/gone.py''" "''/r''"]
          parse_directory_raises [of example_env example_fs "''/r''" 10
             "ValueError []" False "''/r/gone.py''" "''/r''"]
          example_checks r example_supported_files example_gather
    by (simp add: gather_batch_def)
qed

text \<open>A path below a directory without search permission, and a path whose permissions are
  withdrawn after \<^verbatim>\<open>Path.exists()\<close> has returned \<^verbatim>\<open>True\<close>: \<^verbatim>\<open>parse_directory\<close> raises the
  \<^verbatim>\<open>PermissionError\<close> of pathlib, for a path that was not found missing.\<close>

theorem parse_directory_permission_error:
  "parse_directory example_env example_fs ''/locked/repo'' 10
     = Inl (OSError ''[Errno 13] Permission denied'')
   \<and> path_exists example_fs ''/racy'' = Inr True
   \<and> parse_directory example_env example_fs ''/racy'' 10
     = Inl (OSError ''[Errno 13] Permission denied'')"
  by (simp add: parse_directory_def example_checks)

section \<open>Cyclomatic thresholds\<close>

lemma analyze_python_cyclomatic_set:
  assumes "ast_tree file_info = Some tree" "visit_depth cv_has_method tree \<le> frames"
  shows "set (analyze_python_cyclomatic frames file_info) =
         {i. \<exists>f \<in> set (cv_functions (cv_visit tree ComplexityVisitor)).
               cyclomatic_issue file_info f = Some i}"
  using assms by (force simp: analyze_python_cyclomatic_def map_filter_def image_iff)

text \<open>
  C2 (amended). With the default thresholds (medium 10, high 15), in a file whose tree the
  visitor traverses without an exception (the visit fits into the stack frames that are left):
  a function that the visitor measured at cyclomatic complexity exactly 10 yields no finding;
  one measured at 11 yields a finding of medium severity in the detector's output; one measured
  above 15 yields a finding of high severity in the detector's output. When the visit raises
  \<^verbatim>\<open>RecursionError\<close>, the detector catches it and reports no finding for the file, whatever
  the visitor had measured.
\<close>

theorem cyclomatic_threshold_boundary:
  assumes "ast_tree file_info = Some tree"
    and "f \<in> set (cv_functions (cv_visit tree ComplexityVisitor))"
  shows "(visit_depth cv_has_method tree \<le> frames \<longrightarrow>
            (fi_complexity f = 10 \<longrightarrow> cyclomatic_issue file_info f = None)
          \<and> (fi_complexity f = 11 \<longrightarrow>
               (\<exists>i \<in> set (analyze_python_cyclomatic frames file_info).
                  cyclomatic_issue file_info f = Some i \<and> severity i = MEDIUM
                  \<and> line_number i = Some (lineno (fi_node f))))
          \<and> (fi_complexity f > 15 \<longrightarrow>
               (\<exists>i \<in> set (analyze_python_cyclomatic frames file_info).
                  cyclomatic_issue file_info f = Some i \<and> severity i = HIGH
                  \<and> line_number i = Some (lineno (fi_node f)))))
       \<and> (frames < visit_depth cv_has_method tree \<longrightarrow>
            analyze_python_cyclomatic frames file_info = [])"
proof -
  have mem: "\<And>i. visit_depth cv_has_method tree \<le> frames \<Longrightarrow>
             cyclomatic_issue file_info f = Some i \<Longrightarrow>
             i \<in> set (analyze_python_cyclomatic frames file_info)"
    using assms by (auto simp: analyze_python_cyclomatic_set)
  have a: "fi_complexity f = 10 \<longrightarrow> cyclomatic_issue file_info f = None"
    by (simp add: cyclomatic_issue_def Let_def)
  have b: "fi_complexity f = 11 \<longrightarrow>
            (\<exists>i. cyclomatic_issue file_info f = Some i \<and> severity i = MEDIUM
               \<and> line_number i = Some (lineno (fi_node f)))"
    by (simp add: cyclomatic_issue_def Let_def)
  have c: "fi_complexity f > 15 \<longrightarrow>
            (\<exists>i. cyclomatic_issue file_info f = Some i \<and> severity i = HIGH
               \<and> line_number i = Some (lineno (fi_node f)))"
    by (simp add: cyclomatic_issue_def Let_def)
  have d: "frames < visit_depth cv_has_method tree \<longrightarrow>
            analyze_python_cyclomatic frames file_info = []"
    using assms(1) by (simp add: analyze_python_cyclomatic_def)
  show ?thesis using a b c d mem by blast
qed

lemma example_function_measured:
  "cv_functions (cv_visit (example_function n) ComplexityVisitor)
     = [\<lparr>fi_node = example_function n, fi_complexity = 1 + int n, fi_name = ''g''\<rparr>]"
proof -
  have "\<And>st. cv_current_function st \<noteq> None \<Longrightarrow>
          fold cv_visit (replicate n (Node (If 2) [])) st
            = st\<lparr>cv_complexity := cv_complexity st + int n\<rparr>"
    by (induction n) (auto simp: cv_bump_def)
  then show ?thesis
    by (simp add: example_function_def ComplexityVisitor_def)
qed

lemma fold_max_le:
  "(\<forall>x \<in> set xs. x \<le> k) \<Longrightarrow> m \<le> k \<Longrightarrow> fold max xs m \<le> (k::nat)"
  by (induction xs arbitrary: m) simp_all

lemma fold_max_start: "m \<le> fold max ys (m::nat)"
proof (induction ys arbitrary: m)
  case Nil
  then show ?case by simp
next
  case (Cons a ys)
  have "max a m \<le> fold max ys (max a m)" by (rule Cons)
  then show ?case by simp
qed

lemma fold_max_ge:
  "x \<in> set xs \<Longrightarrow> x \<le> fold max xs (m::nat)"
proof (induction xs arbitrary: m)
  case Nil
  then show ?case by simp
next
  case (Cons a xs)
  show ?case
  proof (cases "x = a")
    case True
    have "max a m \<le> fold max xs (max a m)" by (rule fold_max_start)
    then show ?thesis using True by simp
  next
    case False
    then have "x \<in> set xs" using Cons.prems by simp
    then have "x \<le> fold max xs (max a m)" by (rule Cons.IH)
    then show ?thesis by simp
  qed
qed

lemma visit_depth_child:
  assumes "c \<in> set cs"
  shows "2 + visit_depth has_method c \<le> visit_depth has_method (Node k cs)"
proof -
  have "visit_depth has_method c \<le> fold max (map (visit_depth has_method) cs) 1"
    using assms by (intro fold_max_ge) simp
  then show ?thesis by simp
qed

lemma example_function_depth:
  "visit_depth cv_has_method (example_function n) \<le> 7"
proof -
  have "fold max (map (visit_depth cv_has_method) (replicate n (Node (If 2) []))) 1 \<le> 4"
    by (rule fold_max_le) simp_all
  then show ?thesis unfolding example_function_def by simp
qed

lemma deep_expression_depth:
  "visit_depth cv_has_method (deep_expression n) = 2 * n + 3"
  by (induction n) simp_all

lemma deep_expression_visit: "cv_visit (deep_expression n) st = st"
  by (induction n arbitrary: st) simp_all

theorem cyclomatic_threshold_boundary_witness:
  "cyclomatic_issue (example_file (example_function 9))
      \<lparr>fi_node = example_function 9, fi_complexity = 10, fi_name = ''g''\<rparr> = None
   \<and> (\<exists>i \<in> set (analyze_python_cyclomatic 1000 (example_file (example_function 10))).
         severity i = MEDIUM \<and> line_number i = Some 1)
   \<and> (\<exists>i \<in> set (analyze_python_cyclomatic 1000 (example_file (example_function 15))).
         severity i = HIGH \<and> line_number i = Some 1)
   \<and> analyze_python_cyclomatic 5 (example_file (example_function 15)) = []"
proof -
  have t: "\<And>n. ast_tree (example_file (example_function n)) = Some (example_function n)"
    by (simp add: example_file_def)
  have m: "\<And>n. \<lparr>fi_node = example_function n, fi_complexity = 1 + int n, fi_name = ''g''\<rparr>
        \<in> set (cv_functions (cv_visit (example_function n) ComplexityVisitor))"
    by (simp add: example_function_measured)
  have l: "\<And>n. lineno (example_function n) = 1"
    by (simp add: example_function_def)
  have d: "\<And>n. visit_depth cv_has_method (example_function n) \<le> 1000"
    by (rule order_trans [OF example_function_depth]) simp
  have "2 + visit_depth cv_has_method (Node (If 2) [])
      \<le> visit_depth cv_has_method (example_function 15)"
    unfolding example_function_def by (rule visit_depth_child) simp
  then have e: "5 < visit_depth cv_has_method (example_function 15)"
    by simp
  have 1: "cyclomatic_issue (example_file (example_function 9))
      \<lparr>fi_node = example_function 9, fi_complexity = 10, fi_name = ''g''\<rparr> = None"
    using cyclomatic_threshold_boundary [OF t [of 9] m [of 9], of 1000] d [of 9] by simp
  have 2: "\<exists>i \<in> set (analyze_python_cyclomatic 1000 (example_file (example_function 10))).
         severity i = MEDIUM \<and> line_number i = Some 1"
    using cyclomatic_threshold_boundary [OF t [of 10] m [of 10], of 1000] d [of 10]
    by (simp add: l) blast
  have 3: "\<exists>i \<in> set (analyze_python_cyclomatic 1000 (example_file (example_function 15))).
         severity i = HIGH \<and> line_number i = Some 1"
    using cyclomatic_threshold_boundary [OF t [of 15] m [of 15], of 1000] d [of 15]
    by (simp add: l) blast
  have 4: "analyze_python_cyclomatic 5 (example_file (example_function 15)) = []"
    using cyclomatic_threshold_boundary [OF t [of 15] m [of 15], of 5] e by blast
  show ?thesis using 1 2 3 4 by blast
qed

text \<open>The function \<open>g\<close> is measured at 16, above the high threshold; the visit of the following
  500-term sum needs more than the 1000 frames of the default recursion limit, and the file
  yields no finding.\<close>

theorem cyclomatic_recursion_error:
  "measured recursion_tree = [(''g'', 16)]
   \<and> analyze_python_cyclomatic 1000 (example_file recursion_tree) = []"
proof -
  define assign where "assign = Node Other [Node Other [Node Other []], deep_expression 499]"
  have v: "cv_visit assign st = st" for st
    by (simp add: assign_def deep_expression_visit)
  have r: "recursion_tree = Node Other [example_function 15, assign]"
    by (simp add: recursion_tree_def assign_def)
  have "cv_visit recursion_tree ComplexityVisitor
      = cv_visit (example_function 15) ComplexityVisitor"
    unfolding r by (simp add: v)
  then have m: "measured recursion_tree = [(''g'', 16)]"
    by (simp add: measured_def example_function_measured)
  have "2 + visit_depth cv_has_method (deep_expression 499) \<le> visit_depth cv_has_method assign"
    unfolding assign_def by (rule visit_depth_child) simp
  moreover have "2 + visit_depth cv_has_method assign \<le> visit_depth cv_has_method recursion_tree"
    unfolding r by (rule visit_depth_child) simp
  ultimately have "1000 < visit_depth cv_has_method recursion_tree"
    by (simp add: deep_expression_depth)
  then show ?thesis
    using m by (simp add: analyze_python_cyclomatic_def example_file_def)
qed

section \<open>Cognitive complexity: the visitor computes the sum\<close>








section \<open>Exact duplicates are reported in both files\<close>







































section \<open>The analysis of a code base\<close>


lemma example_empty_directory:
  "parse_directory example_env example_fs ''/empty'' 10 = Inr []"
proof -
  have "walk_supported example_fs 10 0 ''/empty'' (listing example_fs ''/empty'') = []"
    using example_supported_files(2) by (simp add: supported_files_def)
  then show ?thesis by (simp add: parse_directory_def batches.simps example_checks)
qed

lemma empty_metrics:
  "calculate_quality_metrics [] [] =
     \<lparr>overall_score = 986 / 10, maintainability_index = 98, cyclomatic_complexity = 1,
      test_coverage = 70, code_duplication = 0, technical_debt_ratio = 0,
      security_score = 100, performance_score = 100, documentation_coverage = 80,
      dependency_health = 100\<rparr>"
  by code_simp

text \<open>
  C9 (amended). When the code base yields no parsed file, \<^verbatim>\<open>analyze_codebase\<close> returns no
  report: it raises \<^verbatim>\<open>Exception("Analysis failed: No supported files found in codebase")\<close>,
  whatever the detectors would report. The metric calculation itself, given no finding and no
  file, does not divide by zero (the line total of an empty file list is taken as 1) and returns
  the computed values: overall score 98.6, maintainability index 98.0, cyclomatic complexity
  1.0, test coverage 70, duplication 0, technical debt 0, security and performance scores 100,
  documentation coverage 80, dependency health 100; the language statistics are the empty list.
\<close>

theorem empty_code_base_raises:
  assumes "parse_directory env fs codebase_path 10 = Inr []"
  shows "analyze_codebase env fs d codebase_path
           = Inl (Exception ''Analysis failed: No supported files found in codebase'')
       \<and> calculate_quality_metrics [] [] =
            \<lparr>overall_score = 986 / 10, maintainability_index = 98, cyclomatic_complexity = 1,
             test_coverage = 70, code_duplication = 0, technical_debt_ratio = 0,
             security_score = 100, performance_score = 100, documentation_coverage = 80,
             dependency_health = 100\<rparr>
       \<and> calculate_language_stats [] = []"
proof -
  have "analyze_codebase env fs d codebase_path
           = Inl (Exception ''Analysis failed: No supported files found in codebase'')"
    using assms by (simp add: analyze_codebase_def)
  moreover have "calculate_language_stats [] = []"
    by (simp add: calculate_language_stats_def first_occurrences_def)
  ultimately show ?thesis using empty_metrics by simp
qed

theorem empty_code_base_raises_witness:
  "analyze_codebase example_env example_fs quiet_detectors ''/empty''
           = Inl (Exception ''Analysis failed: No supported files found in codebase'')
       \<and> calculate_quality_metrics [] [] =
            \<lparr>overall_score = 986 / 10, maintainability_index = 98, cyclomatic_complexity = 1,
             test_coverage = 70, code_duplication = 0, technical_debt_ratio = 0,
             security_score = 100, performance_score = 100, documentation_coverage = 80,
             dependency_health = 100\<rparr>
       \<and> calculate_language_stats [] = []"
  using empty_code_base_raises [OF example_empty_directory] by simp

text \<open>An existing directory without supported files: no report is returned.\<close>

theorem empty_code_base_no_report:
  "analyze_codebase example_env example_fs quiet_detectors ''/empty''
     = Inl (Exception ''Analysis failed: No supported files found in codebase'')"
  by (simp add: analyze_codebase_def example_empty_directory)












end
